theory Spec2Isabelle
  imports Complex_Main
begin

section \<open>Python values\<close>

text \<open>
  A Python float (an IEEE double) is modelled by its value: a finite real, one of the two
  infinities, or NaN; the sign of zero is not represented. Comparison and absolute value
  are exact in IEEE-754 and are defined here. The operations that round are parameters of
  the model of the detector.
\<close>

datatype pyfloat = Finite real | PosInf | NegInf | NaN

text \<open>
  Arithmetic without rounding, with the IEEE rules for the infinities and NaN. The model of
  the detector does not use it; it says what exact arithmetic would give, and the examples
  are built from it.
\<close>

fun fneg :: "pyfloat \<Rightarrow> pyfloat" where
  "fneg (Finite a) = Finite (- a)"
| "fneg PosInf = NegInf"
| "fneg NegInf = PosInf"
| "fneg NaN = NaN"

fun fadd :: "pyfloat \<Rightarrow> pyfloat \<Rightarrow> pyfloat" where
  "fadd (Finite a) (Finite b) = Finite (a + b)"
| "fadd NaN _ = NaN"
| "fadd _ NaN = NaN"
| "fadd PosInf NegInf = NaN"
| "fadd NegInf PosInf = NaN"
| "fadd PosInf _ = PosInf"
| "fadd _ PosInf = PosInf"
| "fadd NegInf _ = NegInf"
| "fadd _ NegInf = NegInf"

definition fsub :: "pyfloat \<Rightarrow> pyfloat \<Rightarrow> pyfloat" where
  "fsub a b = fadd a (fneg b)"

fun fmul :: "pyfloat \<Rightarrow> pyfloat \<Rightarrow> pyfloat" where
  "fmul (Finite a) (Finite b) = Finite (a * b)"
| "fmul NaN _ = NaN"
| "fmul _ NaN = NaN"
| "fmul (Finite a) PosInf = (if a = 0 then NaN else if 0 < a then PosInf else NegInf)"
| "fmul (Finite a) NegInf = (if a = 0 then NaN else if 0 < a then NegInf else PosInf)"
| "fmul PosInf (Finite b) = (if b = 0 then NaN else if 0 < b then PosInf else NegInf)"
| "fmul NegInf (Finite b) = (if b = 0 then NaN else if 0 < b then NegInf else PosInf)"
| "fmul PosInf PosInf = PosInf"
| "fmul PosInf NegInf = NegInf"
| "fmul NegInf PosInf = NegInf"
| "fmul NegInf NegInf = PosInf"

text \<open>A zero divisor gives an infinity or NaN (the zero is taken as \<open>+0.0\<close>).\<close>

fun fdiv :: "pyfloat \<Rightarrow> pyfloat \<Rightarrow> pyfloat" where
  "fdiv (Finite a) (Finite b) =
     (if b = 0 then (if a = 0 then NaN else if 0 < a then PosInf else NegInf)
      else Finite (a / b))"
| "fdiv NaN _ = NaN"
| "fdiv _ NaN = NaN"
| "fdiv (Finite a) PosInf = Finite 0"
| "fdiv (Finite a) NegInf = Finite 0"
| "fdiv PosInf (Finite b) = (if 0 \<le> b then PosInf else NegInf)"
| "fdiv NegInf (Finite b) = (if 0 \<le> b then NegInf else PosInf)"
| "fdiv PosInf PosInf = NaN"
| "fdiv PosInf NegInf = NaN"
| "fdiv NegInf PosInf = NaN"
| "fdiv NegInf NegInf = NaN"

fun fabs :: "pyfloat \<Rightarrow> pyfloat" where
  "fabs (Finite a) = Finite \<bar>a\<bar>"
| "fabs PosInf = PosInf"
| "fabs NegInf = PosInf"
| "fabs NaN = NaN"

fun fsqrt :: "pyfloat \<Rightarrow> pyfloat" where
  "fsqrt (Finite a) = (if 0 \<le> a then Finite (sqrt a) else NaN)"
| "fsqrt PosInf = PosInf"
| "fsqrt NegInf = NaN"
| "fsqrt NaN = NaN"

fun is_finite :: "pyfloat \<Rightarrow> bool" where
  "is_finite (Finite a) = True"
| "is_finite PosInf = False"
| "is_finite NegInf = False"
| "is_finite NaN = False"

text \<open>Comparisons: every comparison with NaN is false.\<close>

fun fle :: "pyfloat \<Rightarrow> pyfloat \<Rightarrow> bool" where
  "fle (Finite a) (Finite b) = (a \<le> b)"
| "fle NaN _ = False"
| "fle _ NaN = False"
| "fle NegInf _ = True"
| "fle _ PosInf = True"
| "fle PosInf _ = False"
| "fle _ NegInf = False"

fun flt :: "pyfloat \<Rightarrow> pyfloat \<Rightarrow> bool" where
  "flt (Finite a) (Finite b) = (a < b)"
| "flt NaN _ = False"
| "flt _ NaN = False"
| "flt PosInf _ = False"
| "flt _ NegInf = False"
| "flt NegInf _ = True"
| "flt _ PosInf = True"

text \<open>
  A value as \<open>request.json\<close> delivers it: \<open>None\<close>, a bool, an int, a float, a string, a
  list or a dict with string keys (an association list; the first binding of a key is the
  one a lookup finds).
\<close>

datatype json =
    JNull
  | JBool bool
  | JInt int
  | JFloat pyfloat
  | JStr string
  | JArr "json list"
  | JObj "(string \<times> json) list"

text \<open>
  The exceptions the code can meet. \<open>KeyError\<close> carries the missing key; the exceptions
  of the HTTP client carry the text the environment gives them.
\<close>

datatype py_exc =
    KeyError string
  | TypeError
  | ValueError
  | AttributeError
  | OverflowError
  | RequestException string
  | OtherException string

fun try_bind :: "py_exc + 'a \<Rightarrow> ('a \<Rightarrow> py_exc + 'b) \<Rightarrow> py_exc + 'b" where
  "try_bind (Inl e) f = Inl e"
| "try_bind (Inr v) f = f v"

text \<open>\<open>obj[key]\<close>: only a dict can be subscripted by a string.\<close>

fun subscript :: "json \<Rightarrow> string \<Rightarrow> py_exc + json" where
  "subscript (JObj kvs) k = (case map_of kvs k of None \<Rightarrow> Inl (KeyError k) | Some v \<Rightarrow> Inr v)"
| "subscript _ k = Inl TypeError"

text \<open>\<open>obj.get(key, default)\<close>: only a dict has the method.\<close>

fun dict_get :: "json \<Rightarrow> string \<Rightarrow> json \<Rightarrow> py_exc + json" where
  "dict_get (JObj kvs) k d = (case map_of kvs k of None \<Rightarrow> Inr d | Some v \<Rightarrow> Inr v)"
| "dict_get _ k d = Inl AttributeError"

text \<open>
  What the code takes from the Python library and does not define: how \<open>float\<close> reads a
  string, how \<open>datetime.fromisoformat\<close> reads one, how a datetime prints, and how \<open>str\<close>
  prints a value that is not a string. They are parameters of the model.
\<close>

record 'dt pylib =
  str_to_float :: "string \<Rightarrow> pyfloat option"
  fromisoformat :: "string \<Rightarrow> 'dt option"
  isoformat :: "'dt \<Rightarrow> string"
  str_of_value :: "json \<Rightarrow> string"

text \<open>
  \<open>float(x)\<close>. An int too large for a double raises OverflowError (from
  \<open>2^1024 - 2^970\<close> on, where rounding reaches \<open>2^1024\<close>); \<open>None\<close>, a list and a dict raise
  TypeError; a string that does not read as a float raises ValueError.
\<close>

definition float_overflow :: int where
  "float_overflow = 2 ^ 1024 - 2 ^ 970"

fun py_float :: "'dt pylib \<Rightarrow> json \<Rightarrow> py_exc + pyfloat" where
  "py_float lib (JFloat f) = Inr f"
| "py_float lib (JInt i) =
     (if \<bar>i\<bar> < float_overflow then Inr (Finite (of_int i)) else Inl OverflowError)"
| "py_float lib (JBool b) = Inr (Finite (if b then 1 else 0))"
| "py_float lib (JStr s) =
     (case str_to_float lib s of None \<Rightarrow> Inl ValueError | Some f \<Rightarrow> Inr f)"
| "py_float lib JNull = Inl TypeError"
| "py_float lib (JArr xs) = Inl TypeError"
| "py_float lib (JObj kvs) = Inl TypeError"

text \<open>\<open>str(x)\<close>: a string is itself.\<close>

fun py_str :: "'dt pylib \<Rightarrow> json \<Rightarrow> string" where
  "py_str lib (JStr s) = s"
| "py_str lib v = str_of_value lib v"

text \<open>\<open>bool(x)\<close>: Python's truth value; it never raises on these values.\<close>

fun py_bool :: "json \<Rightarrow> bool" where
  "py_bool JNull = False"
| "py_bool (JBool b) = b"
| "py_bool (JInt i) = (i \<noteq> 0)"
| "py_bool (JFloat f) = (f \<noteq> Finite 0)"
| "py_bool (JStr s) = (s \<noteq> [])"
| "py_bool (JArr xs) = (xs \<noteq> [])"
| "py_bool (JObj kvs) = (kvs \<noteq> [])"

text \<open>\<open>s.replace('Z', '+00:00')\<close>\<close>

definition replace_Z :: "string \<Rightarrow> string" where
  "replace_Z s = concat (map (\<lambda>c. if c = CHR ''Z'' then ''+00:00'' else [c]) s)"

section \<open>Edge server: configuration\<close>

definition WINDOW_SIZE :: nat where
  "WINDOW_SIZE = 10"

definition VOLTAGE_THRESHOLD :: "real \<times> real" where
  "VOLTAGE_THRESHOLD = (220, 240)"

definition CURRENT_THRESHOLD :: "real \<times> real" where
  "CURRENT_THRESHOLD = (5, 15)"

section \<open>Edge server: \<open>DataPreprocessor.clean_data\<close>\<close>

record formatted_reading =
  voltage :: pyfloat
  current :: pyfloat
  power_consumption :: pyfloat
  city :: string
  timestamp :: string
  status :: string
  flagged :: bool
  anomaly :: bool

text \<open>
  The local \<open>timestamp\<close> of \<open>clean_data\<close>: the parsed datetime when the field is a string,
  the field itself otherwise.
\<close>

datatype 'dt timestamp_value = Parsed 'dt | Unparsed json

fun parse_timestamp :: "'dt pylib \<Rightarrow> json \<Rightarrow> py_exc + 'dt timestamp_value" where
  "parse_timestamp lib (JStr s) =
     (case fromisoformat lib (replace_Z s) of
        None \<Rightarrow> Inl ValueError
      | Some d \<Rightarrow> Inr (Parsed d))"
| "parse_timestamp lib v = Inr (Unparsed v)"

text \<open>\<open>timestamp.isoformat()\<close>: no JSON value has the method.\<close>

fun call_isoformat :: "'dt pylib \<Rightarrow> 'dt timestamp_value \<Rightarrow> py_exc + string" where
  "call_isoformat lib (Parsed d) = Inr (isoformat lib d)"
| "call_isoformat lib (Unparsed v) = Inl AttributeError"

definition clean_data :: "'dt pylib \<Rightarrow> json \<Rightarrow> py_exc + formatted_reading" where
  "clean_data lib reading =
     try_bind (try_bind (subscript reading ''voltage'') (py_float lib)) (\<lambda>v.
     try_bind (try_bind (subscript reading ''current'') (py_float lib)) (\<lambda>c.
     try_bind (try_bind (subscript reading ''power_consumption'') (py_float lib)) (\<lambda>p.
     try_bind (try_bind (subscript reading ''timestamp'') (parse_timestamp lib)) (\<lambda>ts.
     try_bind (subscript reading ''city'') (\<lambda>city_raw.
     try_bind (call_isoformat lib ts) (\<lambda>iso.
       let is_valid =
             (fle (Finite (fst VOLTAGE_THRESHOLD)) v \<and> fle v (Finite (snd VOLTAGE_THRESHOLD)) \<and>
              fle (Finite (fst CURRENT_THRESHOLD)) c \<and> fle c (Finite (snd CURRENT_THRESHOLD)))
       in Inr \<lparr>voltage = v, current = c, power_consumption = p,
               city = py_str lib city_raw, timestamp = iso,
               status = (if is_valid then ''valid'' else ''invalid''),
               flagged = (\<not> is_valid), anomaly = False\<rparr>))))))"

section \<open>Edge server: \<open>DataPreprocessor.detect_anomalies\<close>\<close>

text \<open>
  The keys of \<open>readings_buffer\<close>. A Python dict compares keys by value: \<open>True\<close>, \<open>1\<close> and \<open>1.0\<close>
  are one key, so numbers are keyed by their value. A list or a dict is unhashable, and
  looking it up raises TypeError. (NaN is taken as one key: the JSON decoder returns one
  object for it, which the dict finds by identity.)
\<close>

datatype pykey = KeyNone | KeyNumber pyfloat | KeyString string

fun dict_key :: "json \<Rightarrow> py_exc + pykey" where
  "dict_key JNull = Inr KeyNone"
| "dict_key (JBool b) = Inr (KeyNumber (Finite (if b then 1 else 0)))"
| "dict_key (JInt i) = Inr (KeyNumber (Finite (of_int i)))"
| "dict_key (JFloat f) = Inr (KeyNumber f)"
| "dict_key (JStr s) = Inr (KeyString s)"
| "dict_key (JArr xs) = Inl TypeError"
| "dict_key (JObj kvs) = Inl TypeError"

type_synonym readings_buffer = "pykey \<Rightarrow> formatted_reading list option"

text \<open>\<open>DataPreprocessor.__init__\<close>\<close>

definition init_buffer :: readings_buffer where
  "init_buffer = (\<lambda>k. None)"

text \<open>
  What the detector takes from numpy and from float64 arithmetic: \<open>np.mean\<close> and \<open>np.std\<close>
  of a list, the difference and the quotient of two floats. All four round, so they are
  parameters of the model and not defined here.
\<close>

record numerics =
  np_mean :: "pyfloat list \<Rightarrow> pyfloat"
  np_std :: "pyfloat list \<Rightarrow> pyfloat"
  float_sub :: "pyfloat \<Rightarrow> pyfloat \<Rightarrow> pyfloat"
  float_div :: "pyfloat \<Rightarrow> pyfloat \<Rightarrow> pyfloat"

text \<open>
  Three facts of IEEE-754 and numpy that hold whatever the rounding: a standard deviation
  is never negative (it is a square root, or NaN); a quotient by NaN is NaN; and dividing
  by a positive float commutes with the absolute value (rounding is symmetric in the sign).
\<close>

definition ieee_numerics :: "numerics \<Rightarrow> bool" where
  "ieee_numerics num \<longleftrightarrow>
     (\<forall>xs. \<not> flt (np_std num xs) (Finite 0)) \<and>
     (\<forall>a. float_div num a NaN = NaN) \<and>
     (\<forall>a s. flt (Finite 0) s \<longrightarrow> fabs (float_div num a s) = float_div num (fabs a) s)"

text \<open>
  The same four operations without rounding: the mean is the sum over the length, the
  deviation the square root of the mean of the squared deviations from the mean.
\<close>

definition exact_sum :: "pyfloat list \<Rightarrow> pyfloat" where
  "exact_sum xs = foldl fadd (Finite 0) xs"

definition exact_mean :: "pyfloat list \<Rightarrow> pyfloat" where
  "exact_mean xs = fdiv (exact_sum xs) (Finite (real (length xs)))"

definition exact_std :: "pyfloat list \<Rightarrow> pyfloat" where
  "exact_std xs =
     (let m = exact_mean xs
      in fsqrt (exact_mean (map (\<lambda>x. let d = fsub x m in fmul d d) xs)))"

definition exact_numerics :: numerics where
  "exact_numerics =
     \<lparr>np_mean = exact_mean, np_std = exact_std, float_sub = fsub, float_div = fdiv\<rparr>"

text \<open>
  A sample of float64: on the window of nine times 10.0 and then 11.0, \<open>np.mean\<close> gives the
  double nearest 10.1 and \<open>np.std\<close> the double nearest 0.3, both written out as fractions;
  other windows are not tabulated (NaN). The difference of 11.0 and that mean is exact in
  float64, and the quotient is taken without rounding.
\<close>

definition sample_window :: "pyfloat list" where
  "sample_window =
     [Finite 10, Finite 10, Finite 10, Finite 10, Finite 10,
      Finite 10, Finite 10, Finite 10, Finite 10, Finite 11]"

definition sample_numerics :: numerics where
  "sample_numerics =
     \<lparr>np_mean = (\<lambda>xs. if xs = sample_window
                       then Finite (5685794529555251 / 562949953421312) else NaN),
      np_std = (\<lambda>xs. if xs = sample_window
                      then Finite (5404319552844595 / 18014398509481984) else NaN),
      float_sub = fsub, float_div = fdiv\<rparr>"

text \<open>
  The buffer holds the reading dicts themselves: the dict appended is the one whose
  \<open>anomaly\<close> key is set afterwards and that is returned, so the last entry of the buffer
  carries the verdict as well.
\<close>

definition detect_anomalies ::
  "numerics \<Rightarrow> readings_buffer \<Rightarrow> json \<Rightarrow> formatted_reading
     \<Rightarrow> py_exc + (readings_buffer \<times> formatted_reading)"
where
  "detect_anomalies num buf city_arg reading =
     try_bind (dict_key city_arg) (\<lambda>k.
       let b0 = (case buf k of None \<Rightarrow> [] | Some b \<Rightarrow> b);
           b1 = b0 @ [reading];
           b2 = (if length b1 > WINDOW_SIZE then tl b1 else b1);
           a = (if length b2 \<ge> WINDOW_SIZE then
                  (let power_values = map power_consumption b2;
                       mean_power = np_mean num power_values;
                       std_power = np_std num power_values;
                       current_power = power_consumption reading;
                       z_score = (if flt (Finite 0) std_power
                                  then fabs (float_div num
                                               (float_sub num current_power mean_power)
                                               std_power)
                                  else Finite 0)
                   in flt (Finite 3) z_score)
                else False);
           reading' = reading\<lparr>anomaly := a\<rparr>
       in Inr (buf(k \<mapsto> butlast b2 @ [reading']), reading'))"

text \<open>
  A sequence of invocations, each with its source and reading. An invocation that raises
  leaves the buffers as they were, and the next one runs all the same.
\<close>

fun detect_all ::
  "numerics \<Rightarrow> readings_buffer \<Rightarrow> (json \<times> formatted_reading) list \<Rightarrow> (py_exc + bool) list"
where
  "detect_all num buf [] = []"
| "detect_all num buf ((c, r) # rest) =
     (case detect_anomalies num buf c r of
        Inl e \<Rightarrow> Inl e # detect_all num buf rest
      | Inr (buf', r') \<Rightarrow> Inr (anomaly r') # detect_all num buf' rest)"

fun detect_state ::
  "numerics \<Rightarrow> readings_buffer \<Rightarrow> (json \<times> formatted_reading) list \<Rightarrow> readings_buffer"
where
  "detect_state num buf [] = buf"
| "detect_state num buf ((c, r) # rest) =
     (case detect_anomalies num buf c r of
        Inl e \<Rightarrow> detect_state num buf rest
      | Inr (buf', r') \<Rightarrow> detect_state num buf' rest)"

text \<open>The entries buffered for a source (none before its first reading), and their power values.\<close>

definition entries :: "readings_buffer \<Rightarrow> pykey \<Rightarrow> formatted_reading list" where
  "entries buf k = (case buf k of None \<Rightarrow> [] | Some b \<Rightarrow> b)"

definition window :: "readings_buffer \<Rightarrow> pykey \<Rightarrow> pyfloat list" where
  "window buf k = map power_consumption (case buf k of None \<Rightarrow> [] | Some b \<Rightarrow> b)"

text \<open>A buffer table for the examples: one source with a full window of equal readings.\<close>

definition full_buffer :: "formatted_reading \<Rightarrow> readings_buffer" where
  "full_buffer r = (\<lambda>k. if k = KeyString ''Mumbai'' then Some (r # replicate 9 r) else None)"

subsection \<open>The reference algorithm of the specification\<close>

text \<open>
  The five steps of the specification, over a window of power values: append and evict the
  oldest above \<open>N\<close>; no anomaly below \<open>N\<close> entries; mean and population standard deviation
  of the window after the append; no anomaly when the deviation is zero; otherwise the
  anomaly is \<open>z > 3.0\<close> for \<open>z = |value - mean| / deviation\<close>. Mean, deviation,
  difference and quotient are those of the same arithmetic as the code's.
\<close>

definition reference_window :: "pyfloat list \<Rightarrow> pyfloat \<Rightarrow> pyfloat list" where
  "reference_window w x = (let w' = w @ [x] in if length w' > WINDOW_SIZE then tl w' else w')"

definition reference_anomaly :: "numerics \<Rightarrow> pyfloat list \<Rightarrow> pyfloat \<Rightarrow> bool" where
  "reference_anomaly num w x =
     (if length w < WINDOW_SIZE then False
      else let mu = np_mean num w; sigma = np_std num w
           in if sigma = Finite 0 then False
              else flt (Finite 3) (float_div num (fabs (float_sub num x mu)) sigma))"

fun reference_all ::
  "numerics \<Rightarrow> (pykey \<Rightarrow> pyfloat list) \<Rightarrow> (pykey \<times> pyfloat) list \<Rightarrow> bool list"
where
  "reference_all num W [] = []"
| "reference_all num W ((k, x) # rest) =
     (let w = reference_window (W k) x
      in reference_anomaly num w x # reference_all num (W(k := w)) rest)"

definition hashable :: "json \<Rightarrow> bool" where
  "hashable c = (case dict_key c of Inl e \<Rightarrow> False | Inr k \<Rightarrow> True)"

definition source_of :: "json \<Rightarrow> pykey" where
  "source_of c = (case dict_key c of Inl e \<Rightarrow> KeyNone | Inr k \<Rightarrow> k)"

definition reference_input :: "json \<times> formatted_reading \<Rightarrow> pykey \<times> pyfloat" where
  "reference_input cr = (source_of (fst cr), power_consumption (snd cr))"


section \<open>Edge server: \<open>receive_data\<close>\<close>

text \<open>
  The payload \<open>required_fields\<close>, built in the order of the dict display. The first eight
  entries convert values \<open>clean_data\<close> has already typed and cannot raise; the last six read
  the request itself with \<open>reading[...]\<close>, which raises KeyError on a missing key.
\<close>

definition required_fields :: "'dt pylib \<Rightarrow> json \<Rightarrow> formatted_reading \<Rightarrow> py_exc + json" where
  "required_fields lib reading processed =
     try_bind (try_bind (subscript reading ''temperature'') (py_float lib)) (\<lambda>temperature.
     try_bind (try_bind (subscript reading ''humidity'') (py_float lib)) (\<lambda>humidity.
     try_bind (subscript reading ''zone_distribution'') (\<lambda>zone_distribution.
     try_bind (subscript reading ''is_peak_hour'') (\<lambda>is_peak_hour.
     try_bind (try_bind (subscript reading ''per_capita_consumption'') (py_float lib)) (\<lambda>per_capita.
     try_bind (try_bind (subscript reading ''efficiency_score'') (py_float lib)) (\<lambda>efficiency.
       Inr (JObj
         [(''city'', JStr (city processed)),
          (''timestamp'', JStr (timestamp processed)),
          (''voltage'', JFloat (voltage processed)),
          (''current'', JFloat (current processed)),
          (''power_consumption'', JFloat (power_consumption processed)),
          (''status'', JStr (status processed)),
          (''flagged'', JBool (flagged processed)),
          (''anomaly'', JBool (anomaly processed)),
          (''temperature'', JFloat temperature),
          (''humidity'', JFloat humidity),
          (''zone_distribution'', zone_distribution),
          (''is_peak_hour'', JBool (py_bool is_peak_hour)),
          (''per_capita_consumption'', JFloat per_capita),
          (''efficiency_score'', JFloat efficiency)])))))))"

text \<open>
  The store as the edge server sees it. One call of \<open>session.post\<close> either raises or returns
  a response with a status code; \<open>response.json()\<close> either returns a value or raises. The
  environment is a function from the index of the call and the payload to the outcome.
  (Connection retries of the mounted \<open>HTTPAdapter\<close> happen inside one call of
  \<open>session.post\<close> and are part of its outcome.)
\<close>

datatype json_result = JsonValue json | JsonRaises py_exc

datatype post_outcome = Response int json_result | PostRaises py_exc

type_synonym store = "nat \<Rightarrow> json \<Rightarrow> post_outcome"

text \<open>
  What the view returns: the status code, the \<open>status\<close> and the \<open>message\<close> of the JSON
  body. A message is a literal of the source, the f-string
  \<open>Failed to forward data after {max_retries} attempts: {error_msg}\<close>, or \<open>str(e)\<close> of the
  exception caught. \<open>ReturnsNone\<close> stands for leaving the loop without a \<open>return\<close>.
\<close>

datatype message = Literal string | FailedToForward nat json | ExceptionText py_exc

datatype view_result = JsonResponse nat string message | ReturnsNone

text \<open>The effects of forwarding: the payloads posted and the sleeps, each in order.\<close>

record effects =
  posts :: "json list"
  sleeps :: "nat list"

definition no_effects :: effects where
  "no_effects = \<lparr>posts = [], sleeps = []\<rparr>"

definition max_retries :: nat where
  "max_retries = 3"

definition retry_delay :: nat where
  "retry_delay = 1"

text \<open>\<open>except requests.exceptions.RequestException\<close>\<close>

fun is_request_exception :: "py_exc \<Rightarrow> bool" where
  "is_request_exception (RequestException t) = True"
| "is_request_exception e = False"

text \<open>
  One pass through the body of the \<open>try\<close> in the loop, up to the test of \<open>attempt\<close>: the
  response was 200; it was not and \<open>response.json().get('message', 'Unknown error')\<close> gave
  the error message; a \<open>RequestException\<close> was raised (by the post or by
  \<open>response.json()\<close>); or another exception was raised, which leaves the loop.
\<close>

datatype attempt_result =
    Delivered
  | ErrorResponse json
  | NetworkError
  | Escapes py_exc

fun response_json :: "json_result \<Rightarrow> py_exc + json" where
  "response_json (JsonValue v) = Inr v"
| "response_json (JsonRaises e) = Inl e"

definition on_exception :: "py_exc \<Rightarrow> attempt_result" where
  "on_exception e = (if is_request_exception e then NetworkError else Escapes e)"

fun try_attempt :: "post_outcome \<Rightarrow> attempt_result" where
  "try_attempt (Response code body) =
     (if code = 200 then Delivered
      else (case try_bind (response_json body) (\<lambda>v. dict_get v ''message'' (JStr ''Unknown error'')) of
              Inl e \<Rightarrow> on_exception e
            | Inr error_msg \<Rightarrow> ErrorResponse error_msg))"
| "try_attempt (PostRaises e) = on_exception e"

text \<open>\<open>for attempt in range(max_retries)\<close>, over the attempts still to come.\<close>

fun forward_loop ::
  "store \<Rightarrow> json \<Rightarrow> nat list \<Rightarrow> effects \<Rightarrow> (py_exc + view_result) \<times> effects"
where
  "forward_loop post payload [] eff = (Inr ReturnsNone, eff)"
| "forward_loop post payload (attempt # rest) eff =
     (let eff1 = eff\<lparr>posts := posts eff @ [payload]\<rparr>;
          eff2 = eff1\<lparr>sleeps := sleeps eff1 @ [retry_delay * 2 ^ attempt]\<rparr>
      in case try_attempt (post attempt payload) of
           Delivered \<Rightarrow>
             (Inr (JsonResponse 200 ''success'' (Literal ''Data processed and forwarded'')), eff1)
         | ErrorResponse error_msg \<Rightarrow>
             if attempt < max_retries - 1 then forward_loop post payload rest eff2
             else (Inr (JsonResponse 500 ''error'' (FailedToForward max_retries error_msg)), eff1)
         | NetworkError \<Rightarrow>
             if attempt < max_retries - 1 then forward_loop post payload rest eff2
             else (Inr (JsonResponse 500 ''error''
                         (Literal ''Network error after multiple retries'')), eff1)
         | Escapes e \<Rightarrow> (Inl e, eff1))"

definition forward :: "store \<Rightarrow> json \<Rightarrow> (py_exc + view_result) \<times> effects" where
  "forward post payload = forward_loop post payload [0..<max_retries] no_effects"




definition delivered :: view_result where
  "delivered = JsonResponse 200 ''success'' (Literal ''Data processed and forwarded'')"


definition backoff :: "nat \<Rightarrow> nat" where
  "backoff attempt = retry_delay * 2 ^ attempt"


text \<open>
  The body of the outer \<open>try\<close>. \<open>reading['city']\<close> is read first (for the log line), then
  the reading is cleaned, scored and assembled, and the payload forwarded. The buffers keep
  what the detector did to them also when a later step raises.
\<close>

definition pipeline ::
  "'dt pylib \<Rightarrow> numerics \<Rightarrow> store \<Rightarrow> readings_buffer \<Rightarrow> json
     \<Rightarrow> (py_exc + view_result) \<times> readings_buffer \<times> effects"
where
  "pipeline lib num post buf reading =
     (case subscript reading ''city'' of
        Inl e \<Rightarrow> (Inl e, buf, no_effects)
      | Inr city_raw \<Rightarrow>
     (case clean_data lib reading of
        Inl e \<Rightarrow> (Inl e, buf, no_effects)
      | Inr cleaned_reading \<Rightarrow>
     (case detect_anomalies num buf city_raw cleaned_reading of
        Inl e \<Rightarrow> (Inl e, buf, no_effects)
      | Inr (buf', processed_reading) \<Rightarrow>
     (case required_fields lib reading processed_reading of
        Inl e \<Rightarrow> (Inl e, buf', no_effects)
      | Inr payload \<Rightarrow>
          (fst (forward post payload), buf', snd (forward post payload))))))"

text \<open>\<open>except Exception as e\<close>: status 500 with \<open>str(e)\<close> as the message.\<close>

definition receive_data ::
  "'dt pylib \<Rightarrow> numerics \<Rightarrow> store \<Rightarrow> readings_buffer \<Rightarrow> json
     \<Rightarrow> view_result \<times> readings_buffer \<times> effects"
where
  "receive_data lib num post buf reading =
     (case pipeline lib num post buf reading of
        (Inl e, buf', eff) \<Rightarrow> (JsonResponse 500 ''error'' (ExceptionText e), buf', eff)
      | (Inr v, buf', eff) \<Rightarrow> (v, buf', eff))"

text \<open>
  The status codes seen as the Forwarder sees them: a response that is not 200, whatever
  its code, with the code replaced by 500.
\<close>

fun as_server_error :: "post_outcome \<Rightarrow> post_outcome" where
  "as_server_error (Response code body) = Response (if code = 200 then 200 else 500) body"
| "as_server_error (PostRaises e) = PostRaises e"

text \<open>
  A reading is well formed for \<open>clean_data\<close> when the three numeric fields are present and
  \<open>float\<close> accepts them, the timestamp is a string \<open>fromisoformat\<close> accepts, and the city
  is present (with any value).
\<close>

definition has_float :: "'dt pylib \<Rightarrow> json \<Rightarrow> string \<Rightarrow> bool" where
  "has_float lib reading k =
     (case try_bind (subscript reading k) (py_float lib) of Inl e \<Rightarrow> False | Inr f \<Rightarrow> True)"

definition has_timestamp :: "'dt pylib \<Rightarrow> json \<Rightarrow> bool" where
  "has_timestamp lib reading =
     (case subscript reading ''timestamp'' of
        Inr (JStr s) \<Rightarrow> (case fromisoformat lib (replace_Z s) of None \<Rightarrow> False | Some d \<Rightarrow> True)
      | _ \<Rightarrow> False)"

definition has_city :: "json \<Rightarrow> bool" where
  "has_city reading = (case subscript reading ''city'' of Inl e \<Rightarrow> False | Inr c \<Rightarrow> True)"

definition well_formed :: "'dt pylib \<Rightarrow> json \<Rightarrow> bool" where
  "well_formed lib reading \<longleftrightarrow>
     has_float lib reading ''voltage'' \<and> has_float lib reading ''current'' \<and>
     has_float lib reading ''power_consumption'' \<and> has_timestamp lib reading \<and>
     has_city reading"


section \<open>Central server: \<open>store_data\<close>\<close>

text \<open>
  A row of \<open>power_readings\<close> as the parameters of the INSERT give it; the table has no
  column for status, flagged or anomaly. The table is the list of rows inserted, oldest
  first (the id of a row is its position). Whether SQLite takes a row (types it can bind,
  NOT NULL columns) is a parameter: \<open>None\<close> when it does, the exception otherwise.
\<close>

record power_reading =
  row_city :: json
  row_timestamp :: json
  row_voltage :: pyfloat
  row_current :: pyfloat
  row_power_consumption :: pyfloat
  row_temperature :: pyfloat
  row_humidity :: pyfloat
  row_is_anomaly :: int
  row_is_peak_hour :: int
  row_zone_industrial :: json
  row_zone_residential :: json
  row_zone_commercial :: json
  row_per_capita_consumption :: pyfloat
  row_efficiency_score :: pyfloat

definition get_float :: "'dt pylib \<Rightarrow> json \<Rightarrow> string \<Rightarrow> py_exc + pyfloat" where
  "get_float lib data k = try_bind (dict_get data k (JInt 0)) (py_float lib)"

definition insert_parameters :: "'dt pylib \<Rightarrow> json \<Rightarrow> py_exc + power_reading" where
  "insert_parameters lib data =
     try_bind (dict_get data ''zone_distribution'' (JObj [])) (\<lambda>zone_dist.
     try_bind (dict_get data ''is_anomaly'' (JBool False)) (\<lambda>anomaly_raw.
     try_bind (dict_get data ''is_peak_hour'' (JBool False)) (\<lambda>peak_raw.
     try_bind (subscript data ''city'') (\<lambda>c.
     try_bind (subscript data ''timestamp'') (\<lambda>ts.
     try_bind (try_bind (subscript data ''voltage'') (py_float lib)) (\<lambda>v.
     try_bind (try_bind (subscript data ''current'') (py_float lib)) (\<lambda>i.
     try_bind (try_bind (subscript data ''power_consumption'') (py_float lib)) (\<lambda>p.
     try_bind (get_float lib data ''temperature'') (\<lambda>t.
     try_bind (get_float lib data ''humidity'') (\<lambda>h.
     try_bind (dict_get zone_dist ''industrial'' (JInt 0)) (\<lambda>zi.
     try_bind (dict_get zone_dist ''residential'' (JInt 0)) (\<lambda>zr.
     try_bind (dict_get zone_dist ''commercial'' (JInt 0)) (\<lambda>zc.
     try_bind (get_float lib data ''per_capita_consumption'') (\<lambda>pc.
     try_bind (get_float lib data ''efficiency_score'') (\<lambda>es.
       Inr \<lparr>row_city = c, row_timestamp = ts, row_voltage = v, row_current = i,
            row_power_consumption = p, row_temperature = t, row_humidity = h,
            row_is_anomaly = (if py_bool anomaly_raw then 1 else 0),
            row_is_peak_hour = (if py_bool peak_raw then 1 else 0),
            row_zone_industrial = zi, row_zone_residential = zr, row_zone_commercial = zc,
            row_per_capita_consumption = pc, row_efficiency_score = es\<rparr>)))))))))))))))"

definition store_data ::
  "'dt pylib \<Rightarrow> (power_reading \<Rightarrow> py_exc option) \<Rightarrow> power_reading list \<Rightarrow> json
     \<Rightarrow> view_result \<times> power_reading list"
where
  "store_data lib execute db data =
     (case insert_parameters lib data of
        Inl e \<Rightarrow> (JsonResponse 500 ''error'' (ExceptionText e), db)
      | Inr row \<Rightarrow>
          (case execute row of
             Some e \<Rightarrow> (JsonResponse 500 ''error'' (ExceptionText e), db)
           | None \<Rightarrow> (JsonResponse 200 ''success'' (Literal ''Data stored successfully''),
                        db @ [row])))"


section \<open>Example inputs\<close>

text \<open>
  A library for the examples: \<open>float\<close> reads the string \<open>nan\<close>, \<open>fromisoformat\<close> reads one
  timestamp, and a datetime is kept as its ISO string.
\<close>

definition example_lib :: "string pylib" where
  "example_lib =
     \<lparr>str_to_float = (\<lambda>s. if s = ''nan'' then Some NaN else None),
      fromisoformat = (\<lambda>s. if s = ''2024-01-01T00:00:00'' then Some s else None),
      isoformat = (\<lambda>d. d),
      str_of_value = (\<lambda>v. ''<value>'')\<rparr>"

text \<open>A reading as \<open>SmartMeter.generate_reading\<close> of the IoT simulator builds it: five keys.\<close>

definition meter_reading :: "json \<Rightarrow> real \<Rightarrow> real \<Rightarrow> real \<Rightarrow> json" where
  "meter_reading c v i p =
     JObj [(''city'', c),
           (''timestamp'', JStr ''2024-01-01T00:00:00''),
           (''voltage'', JFloat (Finite v)),
           (''current'', JFloat (Finite i)),
           (''power_consumption'', JFloat (Finite p))]"

text \<open>A reading as \<open>DataSimulator.generate_reading\<close> of the edge server builds it.\<close>

definition simulator_reading :: "json \<Rightarrow> real \<Rightarrow> real \<Rightarrow> real \<Rightarrow> json" where
  "simulator_reading c v i p =
     JObj [(''city'', c),
           (''timestamp'', JStr ''2024-01-01T00:00:00''),
           (''voltage'', JFloat (Finite v)),
           (''current'', JFloat (Finite i)),
           (''power_consumption'', JFloat (Finite p)),
           (''temperature'', JFloat (Finite 30)),
           (''humidity'', JFloat (Finite 70)),
           (''is_anomaly'', JBool True),
           (''is_peak_hour'', JBool False),
           (''zone_distribution'',
              JObj [(''industrial'', JFloat (Finite 300)),
                    (''residential'', JFloat (Finite 500)),
                    (''commercial'', JFloat (Finite 200))]),
           (''per_capita_consumption'', JFloat (Finite 49)),
           (''efficiency_score'', JFloat (Finite (9 / 10)))]"

text \<open>What \<open>clean_data\<close> makes of such a reading.\<close>

definition cleaned :: "string \<Rightarrow> real \<Rightarrow> real \<Rightarrow> real \<Rightarrow> string \<Rightarrow> bool \<Rightarrow> formatted_reading" where
  "cleaned c v i p s f =
     \<lparr>voltage = Finite v, current = Finite i, power_consumption = Finite p,
      city = c, timestamp = ''2024-01-01T00:00:00'',
      status = s, flagged = f, anomaly = False\<rparr>"

text \<open>Ten detector invocations for one city: nine readings of power 10.0, then one of 11.0.\<close>

definition sample_calls :: "(json \<times> formatted_reading) list" where
  "sample_calls =
     map (\<lambda>p. (JStr ''Mumbai'', cleaned ''Mumbai'' 230 10 p ''valid'' False))
       [10, 10, 10, 10, 10, 10, 10, 10, 10, 11]"

text \<open>The payload the edge server builds from a valid simulator reading of a city.\<close>

definition simulator_payload :: "string \<Rightarrow> json" where
  "simulator_payload c =
     JObj [(''city'', JStr c),
           (''timestamp'', JStr ''2024-01-01T00:00:00''),
           (''voltage'', JFloat (Finite 230)),
           (''current'', JFloat (Finite 10)),
           (''power_consumption'', JFloat (Finite 2300)),
           (''status'', JStr ''valid''),
           (''flagged'', JBool False),
           (''anomaly'', JBool False),
           (''temperature'', JFloat (Finite 30)),
           (''humidity'', JFloat (Finite 70)),
           (''zone_distribution'',
              JObj [(''industrial'', JFloat (Finite 300)),
                    (''residential'', JFloat (Finite 500)),
                    (''commercial'', JFloat (Finite 200))]),
           (''is_peak_hour'', JBool False),
           (''per_capita_consumption'', JFloat (Finite 49)),
           (''efficiency_score'', JFloat (Finite (9 / 10)))]"

text \<open>A reading whose voltage is a string that is not a number.\<close>

definition unreadable_reading :: json where
  "unreadable_reading =
     JObj [(''city'', JStr ''Mumbai''),
           (''timestamp'', JStr ''2024-01-01T00:00:00''),
           (''voltage'', JStr ''abc''),
           (''current'', JFloat (Finite 10)),
           (''power_consumption'', JFloat (Finite 2300))]"

text \<open>
  The payload the edge server builds from the same reading when the detector's verdict is
  \<open>True\<close>.
\<close>

definition anomalous_payload :: json where
  "anomalous_payload =
     JObj [(''city'', JStr ''Mumbai''),
           (''timestamp'', JStr ''2024-01-01T00:00:00''),
           (''voltage'', JFloat (Finite 230)),
           (''current'', JFloat (Finite 10)),
           (''power_consumption'', JFloat (Finite 2300)),
           (''status'', JStr ''valid''),
           (''flagged'', JBool False),
           (''anomaly'', JBool True),
           (''temperature'', JFloat (Finite 30)),
           (''humidity'', JFloat (Finite 70)),
           (''zone_distribution'',
              JObj [(''industrial'', JFloat (Finite 300)),
                    (''residential'', JFloat (Finite 500)),
                    (''commercial'', JFloat (Finite 200))]),
           (''is_peak_hour'', JBool False),
           (''per_capita_consumption'', JFloat (Finite 49)),
           (''efficiency_score'', JFloat (Finite (9 / 10)))]"

text \<open>Stores for the examples: one that takes every post, one that rejects every post.\<close>

definition store_ok :: store where
  "store_ok n payload =
     Response 200 (JsonValue (JObj [(''status'', JStr ''success''),
                                   (''message'', JStr ''Data stored successfully'')]))"

definition store_rejects :: store where
  "store_rejects n payload =
     Response 400 (JsonValue (JObj [(''status'', JStr ''error''),
                                   (''message'', JStr ''invalid payload'')]))"



text \<open>A float lies in the closed interval from \<open>lo\<close> to \<open>hi\<close>: it is a number, and between them.\<close>

fun in_closed_interval :: "real \<Rightarrow> real \<Rightarrow> pyfloat \<Rightarrow> bool" where
  "in_closed_interval lo hi (Finite x) = (lo \<le> x \<and> x \<le> hi)"
| "in_closed_interval lo hi PosInf = False"
| "in_closed_interval lo hi NegInf = False"
| "in_closed_interval lo hi NaN = False"

section \<open>Properties of the validator\<close>

lemma try_bind_Inr:
  "try_bind m f = Inr r \<longleftrightarrow> (\<exists>v. m = Inr v \<and> f v = Inr r)"
  by (cases m) auto

lemma fle_interval:
  "(fle (Finite lo) x \<and> fle x (Finite hi)) = in_closed_interval lo hi x"
  by (cases x) auto

lemma clean_data_result:
  assumes "clean_data lib reading = Inr r"
  obtains v c p city_raw iso where
    "try_bind (subscript reading ''voltage'') (py_float lib) = Inr v"
    "try_bind (subscript reading ''current'') (py_float lib) = Inr c"
    "r = \<lparr>voltage = v, current = c, power_consumption = p,
          city = py_str lib city_raw, timestamp = iso,
          status = (if in_closed_interval 220 240 v \<and> in_closed_interval 5 15 c
                    then ''valid'' else ''invalid''),
          flagged = (\<not> (in_closed_interval 220 240 v \<and> in_closed_interval 5 15 c)),
          anomaly = False\<rparr>"
  using assms
  unfolding clean_data_def try_bind_Inr VOLTAGE_THRESHOLD_def CURRENT_THRESHOLD_def
  by (auto simp: Let_def fle_interval [symmetric])

text \<open>
  Claim C1. Whenever \<open>clean_data\<close> returns a reading, its voltage and current are the floats
  read from the request, its status is \<open>valid\<close> exactly when the voltage lies in the closed
  interval 220..240 and the current in the closed interval 5..15, its status is \<open>invalid\<close>
  otherwise, and it is flagged exactly when its status is \<open>invalid\<close>.
\<close>

theorem clean_data_status:
  assumes "clean_data lib reading = Inr r"
  shows "try_bind (subscript reading ''voltage'') (py_float lib) = Inr (voltage r)
       \<and> try_bind (subscript reading ''current'') (py_float lib) = Inr (current r)
       \<and> (status r = ''valid'' \<longleftrightarrow>
            in_closed_interval 220 240 (voltage r) \<and> in_closed_interval 5 15 (current r))
       \<and> (status r \<noteq> ''valid'' \<longrightarrow> status r = ''invalid'')
       \<and> (flagged r \<longleftrightarrow> status r = ''invalid'')"
proof -
  from assms obtain v c p city_raw iso where
    v: "try_bind (subscript reading ''voltage'') (py_float lib) = Inr v" and
    c: "try_bind (subscript reading ''current'') (py_float lib) = Inr c" and
    r: "r = \<lparr>voltage = v, current = c, power_consumption = p,
              city = py_str lib city_raw, timestamp = iso,
              status = (if in_closed_interval 220 240 v \<and> in_closed_interval 5 15 c
                        then ''valid'' else ''invalid''),
              flagged = (\<not> (in_closed_interval 220 240 v \<and> in_closed_interval 5 15 c)),
              anomaly = False\<rparr>"
    by (rule clean_data_result)
  show ?thesis
    using v c by (simp add: r)
qed

lemmas example_defs =
  example_lib_def meter_reading_def simulator_reading_def cleaned_def replace_Z_def
  VOLTAGE_THRESHOLD_def CURRENT_THRESHOLD_def

lemma clean_meter_reading:
  "clean_data example_lib (meter_reading (JStr ''Mumbai'') 230 10 2300)
     = Inr (cleaned ''Mumbai'' 230 10 2300 ''valid'' False)"
  by (simp add: clean_data_def example_defs)

theorem clean_data_status_witness:
  "clean_data example_lib (meter_reading (JStr ''Mumbai'') 230 10 2300)
     = Inr (cleaned ''Mumbai'' 230 10 2300 ''valid'' False)
   \<and> status (cleaned ''Mumbai'' 230 10 2300 ''valid'' False) = ''valid''
   \<and> in_closed_interval 220 240 (voltage (cleaned ''Mumbai'' 230 10 2300 ''valid'' False))
   \<and> in_closed_interval 5 15 (current (cleaned ''Mumbai'' 230 10 2300 ''valid'' False))
   \<and> \<not> flagged (cleaned ''Mumbai'' 230 10 2300 ''valid'' False)"
  using clean_data_status [OF clean_meter_reading] clean_meter_reading
  by (simp add: cleaned_def)

section \<open>Properties of the detector\<close>

lemma ieee_score:
  assumes "ieee_numerics num"
  shows "flt (Finite 3)
           (if flt (Finite 0) (np_std num xs)
            then fabs (float_div num d (np_std num xs)) else Finite 0)
       = (if np_std num xs = Finite 0 then False
          else flt (Finite 3) (float_div num (fabs d) (np_std num xs)))"
proof (cases "flt (Finite 0) (np_std num xs)")
  case True
  then have "np_std num xs \<noteq> Finite 0"
    by auto
  moreover from assms True
  have "fabs (float_div num d (np_std num xs)) = float_div num (fabs d) (np_std num xs)"
    by (simp add: ieee_numerics_def)
  ultimately show ?thesis
    using True by simp
next
  case False
  from assms have nonneg: "\<not> flt (np_std num xs) (Finite 0)"
    by (simp add: ieee_numerics_def)
  show ?thesis
  proof (cases "np_std num xs = Finite 0")
    case True
    then show ?thesis by simp
  next
    case nonzero: False
    with False nonneg have "np_std num xs = NaN"
      by (cases "np_std num xs") auto
    with assms show ?thesis
      by (simp add: ieee_numerics_def)
  qed
qed

lemma map_butlast_snoc:
  "xs \<noteq> [] \<Longrightarrow> f y = f (last xs) \<Longrightarrow> map f (butlast xs @ [y]) = map f xs"
  by (induction xs) auto

lemma detect_anomalies_reference:
  assumes "ieee_numerics num" and "dict_key c = Inr k"
  shows "\<exists>buf' r'. detect_anomalies num buf c r = Inr (buf', r')
           \<and> r' = r\<lparr>anomaly := reference_anomaly num
                        (reference_window (window buf k) (power_consumption r))
                        (power_consumption r)\<rparr>
           \<and> window buf' k = reference_window (window buf k) (power_consumption r)
           \<and> (\<forall>k'. k' \<noteq> k \<longrightarrow> buf' k' = buf k')"
proof -
  define b0 where "b0 = (case buf k of None \<Rightarrow> [] | Some b \<Rightarrow> b)"
  define b2 where "b2 = (if length (b0 @ [r]) > WINDOW_SIZE then tl (b0 @ [r]) else b0 @ [r])"
  define a where "a = reference_anomaly num (map power_consumption b2) (power_consumption r)"
  have w: "reference_window (window buf k) (power_consumption r) = map power_consumption b2"
    by (simp add: reference_window_def window_def b0_def b2_def map_tl)
  have last: "b2 \<noteq> [] \<and> last b2 = r"
    by (cases b0) (auto simp: b2_def WINDOW_SIZE_def)
  have upd: "map power_consumption (butlast b2 @ [r\<lparr>anomaly := a\<rparr>]) = map power_consumption b2"
    using last by (intro map_butlast_snoc) simp_all
  then have upd': "map power_consumption (butlast b2) @ [power_consumption r] = map power_consumption b2"
    by simp
  note score = ieee_score [OF assms(1)]
  have run: "detect_anomalies num buf c r
           = Inr (buf(k \<mapsto> butlast b2 @ [r\<lparr>anomaly := a\<rparr>]), r\<lparr>anomaly := a\<rparr>)"
    using assms(2)
    by (simp add: detect_anomalies_def Let_def b0_def b2_def a_def
        reference_anomaly_def score not_less)
  show ?thesis
    unfolding run w by (simp add: a_def window_def upd')
qed

lemma hashable_key: "hashable c \<Longrightarrow> dict_key c = Inr (source_of c)"
  by (auto simp: hashable_def source_of_def split: sum.splits)

lemma detect_all_reference:
  assumes "ieee_numerics num"
    and "\<forall>cr \<in> set calls. hashable (fst cr)" and "\<forall>k. W k = window buf k"
  shows "detect_all num buf calls = map Inr (reference_all num W (map reference_input calls))"
  using assms(2,3)
proof (induction calls arbitrary: buf W)
  case Nil
  show ?case by simp
next
  case (Cons cr calls)
  obtain c r where cr: "cr = (c, r)" by (cases cr)
  from Cons.prems cr have key: "dict_key c = Inr (source_of c)"
    by (simp add: hashable_key)
  from detect_anomalies_reference [OF assms(1) key, where buf = buf and r = r]
  obtain buf' r' where
    run: "detect_anomalies num buf c r = Inr (buf', r')" and
    r': "r' = r\<lparr>anomaly := reference_anomaly num
                  (reference_window (window buf (source_of c)) (power_consumption r))
                  (power_consumption r)\<rparr>" and
    win: "window buf' (source_of c)
            = reference_window (window buf (source_of c)) (power_consumption r)" and
    other: "\<forall>k'. k' \<noteq> source_of c \<longrightarrow> buf' k' = buf k'"
    by blast
  let ?W' = "W(source_of c := reference_window (W (source_of c)) (power_consumption r))"
  have inv: "\<forall>k. ?W' k = window buf' k"
    using Cons.prems(2) win other by (simp add: window_def)
  have rest: "\<forall>cr \<in> set calls. hashable (fst cr)"
    using Cons.prems(1) by simp
  have IH: "detect_all num buf' calls = map Inr (reference_all num ?W' (map reference_input calls))"
    by (rule Cons.IH [OF rest inv])
  have W: "W (source_of c) = window buf (source_of c)"
    using Cons.prems(2) by simp
  have ri: "reference_input (c, r) = (source_of c, power_consumption r)"
    by (simp add: reference_input_def)
  show ?case
    by (simp add: cr run r' IH W ri Let_def)
qed

text \<open>
  Claim C2. Whatever \<open>np.mean\<close>, \<open>np.std\<close>, the float difference and the float quotient
  compute, as long as the three IEEE facts hold of them: for every sequence of detector
  invocations on hashable sources, starting from the empty buffer table, the anomaly flags
  returned are those of the reference algorithm run on the power values with the same
  arithmetic: append and evict above \<open>N\<close>, false below \<open>N\<close> entries, false when the
  population standard deviation of the window after the append is zero, otherwise
  \<open>|value - mean| / deviation > 3\<close>.
\<close>

theorem detect_anomalies_matches_reference:
  assumes "ieee_numerics num" and "\<forall>cr \<in> set calls. hashable (fst cr)"
  shows "detect_all num init_buffer calls
       = map Inr (reference_all num (\<lambda>k. []) (map reference_input calls))"
  using assms by (intro detect_all_reference) (simp_all add: window_def init_buffer_def)

lemma fdiv_by_positive: "flt (Finite 0) s \<Longrightarrow> fabs (fdiv a s) = fdiv (fabs a) s"
  by (cases a; cases s) (auto simp: abs_divide)

lemma fdiv_by_NaN: "fdiv a NaN = NaN"
  by (cases a) auto

lemma ieee_sample_numerics: "ieee_numerics sample_numerics"
  by (simp add: ieee_numerics_def sample_numerics_def fdiv_by_positive fdiv_by_NaN)

theorem detect_anomalies_matches_reference_witness:
  "ieee_numerics sample_numerics
   \<and> hashable (JStr ''Mumbai'')
   \<and> detect_all sample_numerics init_buffer sample_calls
       = map Inr (reference_all sample_numerics (\<lambda>k. []) (map reference_input sample_calls))
   \<and> reference_all sample_numerics (\<lambda>k. []) (map reference_input sample_calls)
       = [False, False, False, False, False, False, False, False, False, True]"
proof -
  have h: "\<forall>cr \<in> set sample_calls. hashable (fst cr)"
    by (simp add: sample_calls_def hashable_def)
  have k: "hashable (JStr ''Mumbai'')"
    by (simp add: hashable_def)
  have inputs: "map reference_input sample_calls
      = [(KeyString ''Mumbai'', Finite 10), (KeyString ''Mumbai'', Finite 10),
         (KeyString ''Mumbai'', Finite 10), (KeyString ''Mumbai'', Finite 10),
         (KeyString ''Mumbai'', Finite 10), (KeyString ''Mumbai'', Finite 10),
         (KeyString ''Mumbai'', Finite 10), (KeyString ''Mumbai'', Finite 10),
         (KeyString ''Mumbai'', Finite 10), (KeyString ''Mumbai'', Finite 11)]"
    by (simp add: sample_calls_def reference_input_def source_of_def cleaned_def)
  have flags: "reference_all sample_numerics (\<lambda>k. []) (map reference_input sample_calls)
       = [False, False, False, False, False, False, False, False, False, True]"
    unfolding inputs
    by (simp add: reference_window_def reference_anomaly_def WINDOW_SIZE_def Let_def
        sample_numerics_def sample_window_def fsub_def)
  from detect_anomalies_matches_reference [OF ieee_sample_numerics h] k flags
    ieee_sample_numerics
  show ?thesis by simp
qed

lemma entries_window: "window buf k = map power_consumption (entries buf k)"
  by (simp add: window_def entries_def)

lemma detect_anomalies_entries:
  assumes "dict_key c = Inr k"
  shows "\<exists>a. detect_anomalies num buf c r
           = Inr (buf(k \<mapsto> (if length (entries buf k) < WINDOW_SIZE
                               then entries buf k @ [r\<lparr>anomaly := a\<rparr>]
                               else tl (entries buf k) @ [r\<lparr>anomaly := a\<rparr>])),
                  r\<lparr>anomaly := a\<rparr>)"
proof -
  have "butlast (tl (b @ [r])) @ [r'] = tl b @ [r']" if "b \<noteq> []" for b :: "formatted_reading list" and r'
    using that by (cases b) simp_all
  moreover have "entries buf k \<noteq> []" if "\<not> length (entries buf k) < WINDOW_SIZE"
    using that by (auto simp: WINDOW_SIZE_def)
  ultimately show ?thesis
    using assms
    by (auto simp: detect_anomalies_def Let_def entries_def [symmetric] not_less
        less_Suc_eq_le)
qed

lemma detect_anomalies_bounded:
  assumes "\<forall>k. length (entries buf k) \<le> WINDOW_SIZE"
  shows "\<forall>k. length (entries (detect_state num buf calls) k) \<le> WINDOW_SIZE"
  using assms
proof (induction calls arbitrary: buf)
  case Nil
  then show ?case by simp
next
  case (Cons cr calls)
  obtain c r where cr: "cr = (c, r)" by (cases cr)
  show ?case
  proof (cases "dict_key c")
    case (Inl e)
    then have "detect_anomalies num buf c r = Inl e"
      by (simp add: detect_anomalies_def)
    then show ?thesis
      using Cons by (simp add: cr)
  next
    case (Inr k)
    from detect_anomalies_entries [OF Inr, where buf = buf and r = r and num = num] obtain a where
      run: "detect_anomalies num buf c r
              = Inr (buf(k \<mapsto> (if length (entries buf k) < WINDOW_SIZE
                                  then entries buf k @ [r\<lparr>anomaly := a\<rparr>]
                                  else tl (entries buf k) @ [r\<lparr>anomaly := a\<rparr>])),
                     r\<lparr>anomaly := a\<rparr>)"
      by blast
    let ?buf' = "buf(k \<mapsto> (if length (entries buf k) < WINDOW_SIZE
                                  then entries buf k @ [r\<lparr>anomaly := a\<rparr>]
                                  else tl (entries buf k) @ [r\<lparr>anomaly := a\<rparr>]))"
    have "length (entries ?buf' k') \<le> WINDOW_SIZE" for k'
      using Cons.prems [rule_format, of k'] Cons.prems [rule_format, of k]
      by (auto simp: entries_def WINDOW_SIZE_def)
    then have inv': "\<forall>k'. length (entries ?buf' k') \<le> WINDOW_SIZE"
      by blast
    have "\<forall>k. length (entries (detect_state num ?buf' calls) k) \<le> WINDOW_SIZE"
      by (rule Cons.IH [OF inv'])
    then show ?thesis
      unfolding cr detect_state.simps run by simp
  qed
qed

text \<open>
  Claim C3. After any sequence of detector invocations from the empty buffer table, every
  source holds at most \<open>WINDOW_SIZE\<close> entries; and an invocation on a source whose buffer
  is full evicts the oldest entry, keeps the others in order, puts the new reading last and
  leaves every other source alone.
\<close>

theorem window_bounded_fifo:
  assumes "dict_key c = Inr k"
    and "entries buf k = oldest # others"
    and "length (oldest # others) = WINDOW_SIZE"
  shows "(\<forall>k'. length (entries (detect_state num init_buffer calls) k') \<le> WINDOW_SIZE)
       \<and> (\<exists>buf' r'. detect_anomalies num buf c r = Inr (buf', r')
             \<and> r' = r\<lparr>anomaly := anomaly r'\<rparr>
             \<and> entries buf' k = others @ [r']
             \<and> (\<forall>k'. k' \<noteq> k \<longrightarrow> entries buf' k' = entries buf k'))"
proof
  show "\<forall>k'. length (entries (detect_state num init_buffer calls) k') \<le> WINDOW_SIZE"
    by (rule detect_anomalies_bounded) (simp add: entries_def init_buffer_def)
next
  from detect_anomalies_entries [OF assms(1), where buf = buf and r = r and num = num] obtain a where
    "detect_anomalies num buf c r
       = Inr (buf(k \<mapsto> (if length (entries buf k) < WINDOW_SIZE
                           then entries buf k @ [r\<lparr>anomaly := a\<rparr>]
                           else tl (entries buf k) @ [r\<lparr>anomaly := a\<rparr>])),
              r\<lparr>anomaly := a\<rparr>)"
    by blast
  then show "\<exists>buf' r'. detect_anomalies num buf c r = Inr (buf', r')
             \<and> r' = r\<lparr>anomaly := anomaly r'\<rparr>
             \<and> entries buf' k = others @ [r']
             \<and> (\<forall>k'. k' \<noteq> k \<longrightarrow> entries buf' k' = entries buf k')"
    using assms(2,3) by (simp add: entries_def)
qed

theorem window_bounded_fifo_witness:
  "dict_key (JStr ''Mumbai'') = Inr (KeyString ''Mumbai'')
   \<and> entries (full_buffer (cleaned ''Mumbai'' 230 10 2300 ''valid'' False)) (KeyString ''Mumbai'')
       = cleaned ''Mumbai'' 230 10 2300 ''valid'' False
           # replicate 9 (cleaned ''Mumbai'' 230 10 2300 ''valid'' False)
   \<and> length (cleaned ''Mumbai'' 230 10 2300 ''valid'' False
           # replicate 9 (cleaned ''Mumbai'' 230 10 2300 ''valid'' False)) = WINDOW_SIZE
   \<and> (\<exists>buf' r'. detect_anomalies sample_numerics
                   (full_buffer (cleaned ''Mumbai'' 230 10 2300 ''valid'' False))
                   (JStr ''Mumbai'') (cleaned ''Mumbai'' 231 11 9999 ''valid'' False) = Inr (buf', r')
         \<and> entries buf' (KeyString ''Mumbai'')
             = replicate 9 (cleaned ''Mumbai'' 230 10 2300 ''valid'' False) @ [r'])"
proof -
  have k: "dict_key (JStr ''Mumbai'') = Inr (KeyString ''Mumbai'')" by simp
  have e: "entries (full_buffer (cleaned ''Mumbai'' 230 10 2300 ''valid'' False)) (KeyString ''Mumbai'')
       = cleaned ''Mumbai'' 230 10 2300 ''valid'' False
           # replicate 9 (cleaned ''Mumbai'' 230 10 2300 ''valid'' False)"
    by (simp add: entries_def full_buffer_def)
  have l: "length (cleaned ''Mumbai'' 230 10 2300 ''valid'' False
           # replicate 9 (cleaned ''Mumbai'' 230 10 2300 ''valid'' False)) = WINDOW_SIZE"
    by (simp add: WINDOW_SIZE_def)
  from window_bounded_fifo
         [OF k e l, where calls = "[]" and num = sample_numerics
            and r = "cleaned ''Mumbai'' 231 11 9999 ''valid'' False"]
  show ?thesis using k e l by blast
qed

section \<open>Properties of the forwarder\<close>

lemma all_less_max_retries:
  "(\<forall>a<max_retries. P a) \<longleftrightarrow> P 0 \<and> P (Suc 0) \<and> P 2"
  by (auto simp: max_retries_def less_Suc_eq numeral_3_eq_3 numeral_2_eq_2)

lemma range_max_retries: "[0..<max_retries] = [0, Suc 0, 2]"
  by (simp add: max_retries_def upt_rec numeral_3_eq_3 numeral_2_eq_2)



text \<open>The loop in closed form, by the results of the three attempts.\<close>

lemma forward_unrolled:
  "forward post payload =
     (case try_attempt (post 0 payload) of
        Delivered \<Rightarrow> (Inr delivered, \<lparr>posts = [payload], sleeps = []\<rparr>)
      | Escapes e \<Rightarrow> (Inl e, \<lparr>posts = [payload], sleeps = []\<rparr>)
      | _ \<Rightarrow>
     (case try_attempt (post (Suc 0) payload) of
        Delivered \<Rightarrow> (Inr delivered, \<lparr>posts = [payload, payload], sleeps = [1]\<rparr>)
      | Escapes e \<Rightarrow> (Inl e, \<lparr>posts = [payload, payload], sleeps = [1]\<rparr>)
      | _ \<Rightarrow>
     (case try_attempt (post 2 payload) of
        Delivered \<Rightarrow> (Inr delivered, \<lparr>posts = [payload, payload, payload], sleeps = [1, 2]\<rparr>)
      | Escapes e \<Rightarrow> (Inl e, \<lparr>posts = [payload, payload, payload], sleeps = [1, 2]\<rparr>)
      | ErrorResponse m \<Rightarrow>
          (Inr (JsonResponse 500 ''error'' (FailedToForward 3 m)),
           \<lparr>posts = [payload, payload, payload], sleeps = [1, 2]\<rparr>)
      | NetworkError \<Rightarrow>
          (Inr (JsonResponse 500 ''error'' (Literal ''Network error after multiple retries'')),
           \<lparr>posts = [payload, payload, payload], sleeps = [1, 2]\<rparr>))))"
  unfolding forward_def range_max_retries
  by (simp add: no_effects_def delivered_def Let_def max_retries_def retry_delay_def
      split: attempt_result.splits)

lemma forward_effects:
  "length (posts (snd (forward post payload))) \<le> max_retries
   \<and> posts (snd (forward post payload))
       = replicate (length (posts (snd (forward post payload)))) payload
   \<and> sleeps (snd (forward post payload))
       = map backoff [0..<length (posts (snd (forward post payload))) - 1]
   \<and> sorted_wrt (<) (sleeps (snd (forward post payload)))"
  by (simp add: forward_unrolled max_retries_def backoff_def retry_delay_def
      split: attempt_result.splits)





lemma forward_outcomes:
  assumes "fst (forward post payload) = Inr v"
  shows "v = delivered
       \<or> (\<exists>m. v = JsonResponse 500 ''error'' (FailedToForward 3 m))
       \<or> v = JsonResponse 500 ''error'' (Literal ''Network error after multiple retries'')"
  using assms by (auto simp: forward_unrolled split: attempt_result.splits)

lemma malformed_report_distinct:
  assumes "fst (forward post' payload) = Inr v"
  shows "JsonResponse 500 ''error'' (ExceptionText e) \<noteq> v"
  using forward_outcomes [OF assms] by (auto simp: delivered_def)



text \<open>
  Claim C7, as stated, fails: a store that answers the first attempt, and every later one,
  with status 400 and the message \<open>invalid payload\<close> is posted to three times, with sleeps
  of 1 and 2 seconds, before the failure is reported.
\<close>

theorem rejection_is_retried:
  "store_rejects 0 (JObj []) =
     Response 400 (JsonValue (JObj [(''status'', JStr ''error''), (''message'', JStr ''invalid payload'')]))
   \<and> forward store_rejects (JObj []) =
     (Inr (JsonResponse 500 ''error'' (FailedToForward 3 (JStr ''invalid payload''))),
      \<lparr>posts = [JObj [], JObj [], JObj []], sleeps = [1, 2]\<rparr>)"
  by (simp add: forward_unrolled store_rejects_def)

lemma try_attempt_as_server_error: "try_attempt (as_server_error out) = try_attempt out"
  by (cases out) auto

text \<open>
  Claim C7, amended. The Forwarder tells no status code from another: a store that answers
  every attempt with a status other than 200 and a JSON-object body, a rejection of the
  payload included, is posted to exactly \<open>max_retries\<close> times, with the backoff sleeps in
  between, and the failure reported carries the message of the last response; and for
  every store, replacing each status other than 200 by 500 changes neither the outcome nor
  the effects.
\<close>

theorem every_error_response_retried:
  assumes "\<forall>a<max_retries. post a payload = Response (code a) (JsonValue (JObj (body a)))
                              \<and> code a \<noteq> 200"
  shows "forward post payload =
           (Inr (JsonResponse 500 ''error''
                  (FailedToForward max_retries
                     (case map_of (body 2) ''message'' of
                        None \<Rightarrow> JStr ''Unknown error'' | Some m \<Rightarrow> m))),
            \<lparr>posts = [payload, payload, payload], sleeps = [backoff 0, backoff 1]\<rparr>)
       \<and> forward (\<lambda>a p. as_server_error (post a p)) payload = forward post payload"
proof -
  from assms have
    "post 0 payload = Response (code 0) (JsonValue (JObj (body 0)))" "code 0 \<noteq> 200"
    "post (Suc 0) payload = Response (code (Suc 0)) (JsonValue (JObj (body (Suc 0))))" "code (Suc 0) \<noteq> 200"
    "post 2 payload = Response (code 2) (JsonValue (JObj (body 2)))" "code 2 \<noteq> 200"
    by (simp_all add: all_less_max_retries)
  then have "forward post payload =
           (Inr (JsonResponse 500 ''error''
                  (FailedToForward max_retries
                     (case map_of (body 2) ''message'' of
                        None \<Rightarrow> JStr ''Unknown error'' | Some m \<Rightarrow> m))),
            \<lparr>posts = [payload, payload, payload], sleeps = [backoff 0, backoff 1]\<rparr>)"
    by (simp add: forward_unrolled max_retries_def backoff_def retry_delay_def
        split: option.splits)
  moreover have "forward (\<lambda>a p. as_server_error (post a p)) payload = forward post payload"
    by (simp add: forward_unrolled try_attempt_as_server_error cong: attempt_result.case_cong)
  ultimately show ?thesis by simp
qed

theorem every_error_response_retried_witness:
  "store_rejects 0 (JObj []) = Response 400 (JsonValue (JObj [(''status'', JStr ''error''), (''message'', JStr ''invalid payload'')]))
   \<and> store_rejects 1 (JObj []) = Response 400 (JsonValue (JObj [(''status'', JStr ''error''), (''message'', JStr ''invalid payload'')]))
   \<and> store_rejects 2 (JObj []) = Response 400 (JsonValue (JObj [(''status'', JStr ''error''), (''message'', JStr ''invalid payload'')]))
   \<and> (400 :: int) \<noteq> 200
   \<and> forward store_rejects (JObj []) =
        (Inr (JsonResponse 500 ''error'' (FailedToForward max_retries (JStr ''invalid payload''))),
         \<lparr>posts = [JObj [], JObj [], JObj []], sleeps = [backoff 0, backoff 1]\<rparr>)"
proof -
  have h: "\<forall>a<max_retries. store_rejects a (JObj []) =
             Response ((\<lambda>a. 400) a)
               (JsonValue (JObj ((\<lambda>a. [(''status'', JStr ''error''), (''message'', JStr ''invalid payload'')]) a)))
             \<and> (\<lambda>a. 400 :: int) a \<noteq> 200"
    by (simp add: store_rejects_def)
  from every_error_response_retried
         [of store_rejects "JObj []" "\<lambda>a. 400"
             "\<lambda>a. [(''status'', JStr ''error''), (''message'', JStr ''invalid payload'')]", OF h]
  show ?thesis
    by (simp add: store_rejects_def)
qed

section \<open>Properties of the pipeline\<close>

lemma clean_data_succeeds_iff:
  "(\<exists>r. clean_data lib reading = Inr r) \<longleftrightarrow> well_formed lib reading"
proof -
  have ts: "(\<exists>iso. try_bind (try_bind (subscript reading ''timestamp'') (parse_timestamp lib))
                      (call_isoformat lib) = Inr iso)
            \<longleftrightarrow> has_timestamp lib reading"
  proof (cases "subscript reading ''timestamp''")
    case (Inl e)
    then show ?thesis by (simp add: has_timestamp_def)
  next
    case (Inr v)
    then show ?thesis
      by (cases v) (auto simp: has_timestamp_def split: option.splits)
  qed
  have fl: "(\<exists>f. try_bind (subscript reading k) (py_float lib) = Inr f) \<longleftrightarrow> has_float lib reading k"
    for k
    by (cases "try_bind (subscript reading k) (py_float lib)") (simp_all add: has_float_def)
  have ci: "(\<exists>c. subscript reading ''city'' = Inr c) \<longleftrightarrow> has_city reading"
    by (cases "subscript reading ''city''") (simp_all add: has_city_def)
  have "(\<exists>r. clean_data lib reading = Inr r) \<longleftrightarrow>
          (\<exists>v. try_bind (subscript reading ''voltage'') (py_float lib) = Inr v)
        \<and> (\<exists>c. try_bind (subscript reading ''current'') (py_float lib) = Inr c)
        \<and> (\<exists>p. try_bind (subscript reading ''power_consumption'') (py_float lib) = Inr p)
        \<and> (\<exists>iso. try_bind (try_bind (subscript reading ''timestamp'') (parse_timestamp lib))
                      (call_isoformat lib) = Inr iso)
        \<and> (\<exists>c. subscript reading ''city'' = Inr c)"
    unfolding clean_data_def try_bind_Inr Let_def by blast
  then show ?thesis
    unfolding well_formed_def fl [symmetric] ts [symmetric] ci [symmetric] by blast
qed

lemma clean_data_fails_iff:
  "(\<exists>e. clean_data lib reading = Inl e) \<longleftrightarrow> \<not> well_formed lib reading"
  using clean_data_succeeds_iff [of lib reading]
  by (cases "clean_data lib reading") auto

lemma pipeline_aborts:
  assumes "clean_data lib reading = Inl e"
  shows "\<exists>e'. receive_data lib num post buf reading
           = (JsonResponse 500 ''error'' (ExceptionText e'), buf, no_effects)"
  using assms
  by (cases "subscript reading ''city''") (simp_all add: receive_data_def pipeline_def)

text \<open>
  Claim C5, amended. \<open>clean_data\<close> raises exactly on the readings that are not well formed:
  voltage, current, power consumption, timestamp or city is missing, \<open>float\<close> rejects a
  numeric field, or the timestamp is not a string that \<open>fromisoformat\<close> accepts (the city
  may be any value). For such a reading the pipeline stops there: the buffers are as
  before, nothing is posted or slept, and the caller gets status 500 with status \<open>error\<close>
  and the text of the exception as the message, a response that differs from every
  outcome the Forwarder returns for any store and payload.
\<close>

theorem malformed_reading_aborts:
  "(\<not> well_formed lib reading \<longleftrightarrow> (\<exists>e. clean_data lib reading = Inl e))
   \<and> (\<not> well_formed lib reading \<longrightarrow>
        (\<exists>e. receive_data lib num post buf reading
               = (JsonResponse 500 ''error'' (ExceptionText e), buf, no_effects))
        \<and> (\<forall>post' payload v. fst (forward post' payload) = Inr v \<longrightarrow>
              fst (receive_data lib num post buf reading) \<noteq> v))"
proof -
  have 1: "\<not> well_formed lib reading \<longleftrightarrow> (\<exists>e. clean_data lib reading = Inl e)"
    using clean_data_fails_iff [of lib reading] by blast
  have 2: "(\<exists>e. receive_data lib num post buf reading
               = (JsonResponse 500 ''error'' (ExceptionText e), buf, no_effects))
        \<and> (\<forall>post' payload v. fst (forward post' payload) = Inr v \<longrightarrow>
              fst (receive_data lib num post buf reading) \<noteq> v)"
    if "\<not> well_formed lib reading"
  proof -
    from that 1 obtain e where "clean_data lib reading = Inl e" by blast
    from pipeline_aborts [OF this, where num = num and post = post and buf = buf]
    obtain e' where r: "receive_data lib num post buf reading
           = (JsonResponse 500 ''error'' (ExceptionText e'), buf, no_effects)"
      by blast
    then show ?thesis
      using malformed_report_distinct by auto
  qed
  from 1 2 show ?thesis by blast
qed

lemma clean_simulator_reading:
  "clean_data example_lib (simulator_reading (JStr c) 230 10 2300)
     = Inr (cleaned c 230 10 2300 ''valid'' False)"
  by (simp add: clean_data_def example_defs)

lemma clean_out_of_range_meter_reading:
  "clean_data example_lib (meter_reading (JStr ''Mumbai'') 250 10 2500)
     = Inr (cleaned ''Mumbai'' 250 10 2500 ''invalid'' True)"
  by (simp add: clean_data_def example_defs)

lemma detect_first_reading:
  "detect_anomalies num init_buffer (JStr c) (cleaned c' v i p s f)
     = Inr (init_buffer(KeyString c \<mapsto> [cleaned c' v i p s f]), cleaned c' v i p s f)"
  by (simp add: detect_anomalies_def init_buffer_def WINDOW_SIZE_def cleaned_def Let_def)

lemma required_fields_meter_reading:
  "required_fields lib (meter_reading c v i p) r = Inl (KeyError ''temperature'')"
  by (simp add: required_fields_def meter_reading_def)

lemma required_fields_simulator_reading:
  "required_fields example_lib (simulator_reading (JStr c) 230 10 2300)
     (cleaned c 230 10 2300 ''valid'' False) = Inr (simulator_payload c)"
  by (simp add: required_fields_def simulator_reading_def cleaned_def simulator_payload_def)

lemma forward_store_ok:
  "forward store_ok payload = (Inr delivered, \<lparr>posts = [payload], sleeps = []\<rparr>)"
  by (simp add: forward_unrolled store_ok_def)

lemma city_of_reading:
  "subscript (meter_reading c v i p) ''city'' = Inr c"
  "subscript (simulator_reading c v i p) ''city'' = Inr c"
  by (simp_all add: meter_reading_def simulator_reading_def)

text \<open>
  Claim C5, as stated, fails: a reading whose city is the empty string passes \<open>clean_data\<close>,
  is scored under the empty source and is delivered to the store.
\<close>

theorem empty_city_accepted:
  "clean_data example_lib (simulator_reading (JStr []) 230 10 2300)
     = Inr (cleaned [] 230 10 2300 ''valid'' False)
   \<and> receive_data example_lib sample_numerics store_ok init_buffer (simulator_reading (JStr []) 230 10 2300)
     = (delivered,
        init_buffer(KeyString [] \<mapsto> [cleaned [] 230 10 2300 ''valid'' False]),
        \<lparr>posts = [simulator_payload []], sleeps = []\<rparr>)"
  by (simp add: receive_data_def pipeline_def city_of_reading clean_simulator_reading
      detect_first_reading required_fields_simulator_reading forward_store_ok)



text \<open>
  The store itself takes a reading without the optional fields: \<open>data.get(key, 0)\<close> gives
  each absent one the value zero.
\<close>

lemma store_defaults_optional_fields:
  "store_data lib (\<lambda>row. None) db (meter_reading (JStr c) v i p)
     = (JsonResponse 200 ''success'' (Literal ''Data stored successfully''),
        db @ [\<lparr>row_city = JStr c, row_timestamp = JStr ''2024-01-01T00:00:00'',
                row_voltage = Finite v, row_current = Finite i,
                row_power_consumption = Finite p,
                row_temperature = Finite 0, row_humidity = Finite 0,
                row_is_anomaly = 0, row_is_peak_hour = 0,
                row_zone_industrial = JInt 0, row_zone_residential = JInt 0,
                row_zone_commercial = JInt 0,
                row_per_capita_consumption = Finite 0, row_efficiency_score = Finite 0\<rparr>])"
  by (simp add: store_data_def insert_parameters_def get_float_def meter_reading_def
      float_overflow_def)

text \<open>
  Claim C8 against the code. A reading of the IoT simulator has the five required fields
  and none of the optional ones. The edge server cleans and scores it (the buffer of its
  city gets it), then raises KeyError on \<open>reading['temperature']\<close> while assembling the
  payload: nothing is posted, and the caller gets status 500.
\<close>

theorem meter_reading_not_forwarded:
  "receive_data example_lib sample_numerics store_ok init_buffer (meter_reading (JStr ''Mumbai'') 230 10 2300)
     = (JsonResponse 500 ''error'' (ExceptionText (KeyError ''temperature'')),
        init_buffer(KeyString ''Mumbai'' \<mapsto> [cleaned ''Mumbai'' 230 10 2300 ''valid'' False]),
        no_effects)"
  by (simp add: receive_data_def pipeline_def city_of_reading clean_meter_reading
      detect_first_reading required_fields_meter_reading)

text \<open>
  Claim C6 against the code. A reading with the five required fields and a voltage of 250
  is well formed: \<open>clean_data\<close> classifies it \<open>invalid\<close> and flagged, and the detector
  buffers it. It is not forwarded: assembling the payload raises KeyError on
  \<open>reading['temperature']\<close>, nothing is posted, and the caller gets status 500.
\<close>

theorem out_of_range_meter_reading_not_forwarded:
  "clean_data example_lib (meter_reading (JStr ''Mumbai'') 250 10 2500)
     = Inr (cleaned ''Mumbai'' 250 10 2500 ''invalid'' True)
   \<and> receive_data example_lib sample_numerics store_ok init_buffer (meter_reading (JStr ''Mumbai'') 250 10 2500)
     = (JsonResponse 500 ''error'' (ExceptionText (KeyError ''temperature'')),
        init_buffer(KeyString ''Mumbai'' \<mapsto> [cleaned ''Mumbai'' 250 10 2500 ''invalid'' True]),
        no_effects)"
  by (simp add: receive_data_def pipeline_def city_of_reading clean_out_of_range_meter_reading
      detect_first_reading required_fields_meter_reading)

theorem malformed_reading_aborts_witness:
  "\<not> well_formed example_lib unreadable_reading
   \<and> clean_data example_lib unreadable_reading = Inl ValueError
   \<and> (\<exists>e. receive_data example_lib sample_numerics store_ok init_buffer unreadable_reading
           = (JsonResponse 500 ''error'' (ExceptionText e), init_buffer, no_effects))
   \<and> fst (forward store_rejects (JObj []))
       = Inr (JsonResponse 500 ''error'' (FailedToForward 3 (JStr ''invalid payload'')))
   \<and> fst (receive_data example_lib sample_numerics store_ok init_buffer unreadable_reading)
       \<noteq> JsonResponse 500 ''error'' (FailedToForward 3 (JStr ''invalid payload''))"
proof -
  have 1: "clean_data example_lib unreadable_reading = Inl ValueError"
    by (simp add: clean_data_def unreadable_reading_def example_lib_def)
  have 2: "\<not> well_formed example_lib unreadable_reading"
    by (simp add: well_formed_def has_float_def unreadable_reading_def example_lib_def)
  have 3: "fst (forward store_rejects (JObj []))
       = Inr (JsonResponse 500 ''error'' (FailedToForward 3 (JStr ''invalid payload'')))"
    by (simp add: forward_unrolled store_rejects_def)
  from malformed_reading_aborts
         [where lib = example_lib and reading = unreadable_reading and num = sample_numerics
            and post = store_ok and buf = init_buffer] 1 2 3
  show ?thesis by blast
qed

section \<open>Properties of the store\<close>

lemma try_bind_InrE:
  assumes "try_bind m f = Inr r"
  obtains v where "m = Inr v" and "f v = Inr r"
  using assms by (cases m) auto

lemma required_fields_shape:
  assumes "required_fields lib reading processed = Inr payload"
  shows "\<exists>t h z pk pc es.
           (\<forall>r. required_fields lib reading r = Inr (JObj
             [(''city'', JStr (city r)),
              (''timestamp'', JStr (timestamp r)),
              (''voltage'', JFloat (voltage r)),
              (''current'', JFloat (current r)),
              (''power_consumption'', JFloat (power_consumption r)),
              (''status'', JStr (status r)),
              (''flagged'', JBool (flagged r)),
              (''anomaly'', JBool (anomaly r)),
              (''temperature'', JFloat t),
              (''humidity'', JFloat h),
              (''zone_distribution'', z),
              (''is_peak_hour'', JBool (py_bool pk)),
              (''per_capita_consumption'', JFloat pc),
              (''efficiency_score'', JFloat es)]))"
proof -
  from assms obtain t where
    t: "try_bind (subscript reading ''temperature'') (py_float lib) = Inr t"
    unfolding required_fields_def by (rule try_bind_InrE)
  from assms obtain h where
    h: "try_bind (subscript reading ''humidity'') (py_float lib) = Inr h"
    unfolding required_fields_def t try_bind.simps by (rule try_bind_InrE)
  from assms obtain z where
    z: "subscript reading ''zone_distribution'' = Inr z"
    unfolding required_fields_def t h try_bind.simps by (rule try_bind_InrE)
  from assms obtain pk where
    pk: "subscript reading ''is_peak_hour'' = Inr pk"
    unfolding required_fields_def t h z try_bind.simps by (rule try_bind_InrE)
  from assms obtain pc where
    pc: "try_bind (subscript reading ''per_capita_consumption'') (py_float lib) = Inr pc"
    unfolding required_fields_def t h z pk try_bind.simps by (rule try_bind_InrE)
  from assms obtain es where
    es: "try_bind (subscript reading ''efficiency_score'') (py_float lib) = Inr es"
    unfolding required_fields_def t h z pk pc try_bind.simps by (rule try_bind_InrE)
  show ?thesis
    unfolding required_fields_def t h z pk pc es try_bind.simps by blast
qed


lemma insert_parameters_payload:
  "insert_parameters lib
     (JObj [(''city'', JStr c),
            (''timestamp'', JStr ts),
            (''voltage'', JFloat v),
            (''current'', JFloat i),
            (''power_consumption'', JFloat p),
            (''status'', JStr s),
            (''flagged'', JBool f),
            (''anomaly'', JBool a),
            (''temperature'', JFloat t),
            (''humidity'', JFloat h),
            (''zone_distribution'', z),
            (''is_peak_hour'', JBool pk),
            (''per_capita_consumption'', JFloat pc),
            (''efficiency_score'', JFloat es)])
   = try_bind (dict_get z ''industrial'' (JInt 0)) (\<lambda>zi.
     try_bind (dict_get z ''residential'' (JInt 0)) (\<lambda>zr.
     try_bind (dict_get z ''commercial'' (JInt 0)) (\<lambda>zc.
       Inr \<lparr>row_city = JStr c, row_timestamp = JStr ts, row_voltage = v, row_current = i,
            row_power_consumption = p, row_temperature = t, row_humidity = h,
            row_is_anomaly = 0,
            row_is_peak_hour = (if pk then 1 else 0),
            row_zone_industrial = zi, row_zone_residential = zr, row_zone_commercial = zc,
            row_per_capita_consumption = pc, row_efficiency_score = es\<rparr>)))"
  by (simp add: insert_parameters_def get_float_def)

lemma store_data_payload:
  assumes "store_data lib execute db
     (JObj [(''city'', JStr c),
            (''timestamp'', JStr ts),
            (''voltage'', JFloat v),
            (''current'', JFloat i),
            (''power_consumption'', JFloat p),
            (''status'', JStr s),
            (''flagged'', JBool f),
            (''anomaly'', JBool a),
            (''temperature'', JFloat t),
            (''humidity'', JFloat h),
            (''zone_distribution'', z),
            (''is_peak_hour'', JBool pk),
            (''per_capita_consumption'', JFloat pc),
            (''efficiency_score'', JFloat es)]) = (resp, db')"
  shows "(resp = JsonResponse 200 ''success'' (Literal ''Data stored successfully'')
            \<and> (\<exists>row. db' = db @ [row] \<and> row_is_anomaly row = 0))
       \<or> ((\<exists>e. resp = JsonResponse 500 ''error'' (ExceptionText e)) \<and> db' = db)"
proof (cases "dict_get z ''industrial'' (JInt 0)")
  case (Inl e)
  with assms show ?thesis
    by (auto simp: store_data_def insert_parameters_payload)
next
  case zi: (Inr zi)
  show ?thesis
  proof (cases "dict_get z ''residential'' (JInt 0)")
    case (Inl e)
    with assms zi show ?thesis
      by (auto simp: store_data_def insert_parameters_payload)
  next
    case zr: (Inr zr)
    show ?thesis
    proof (cases "dict_get z ''commercial'' (JInt 0)")
      case (Inl e)
      with assms zi zr show ?thesis
        by (auto simp: store_data_def insert_parameters_payload)
    next
      case zc: (Inr zc)
      with assms zi zr show ?thesis
        by (auto simp: store_data_def insert_parameters_payload split: option.splits)
    qed
  qed
qed

text \<open>
  Claim C10. Every payload the edge server assembles carries the detector's verdict under
  the key \<open>anomaly\<close> and has no key \<open>is_anomaly\<close>, so the store reads the default \<open>False\<close>:
  whenever \<open>store_data\<close> takes the payload, the row it appends has \<open>is_anomaly = 0\<close>, and
  otherwise it answers 500 and appends nothing. What the store does with a payload does not
  depend on its status, flagged and anomaly entries: they are not persisted.
\<close>

theorem anomaly_never_persisted:
  assumes "required_fields lib reading processed = Inr payload"
  shows "subscript payload ''anomaly'' = Inr (JBool (anomaly processed))
       \<and> dict_get payload ''is_anomaly'' (JBool False) = Inr (JBool False)
       \<and> (\<forall>resp db'. store_data lib' execute db payload = (resp, db') \<longrightarrow>
            (resp = JsonResponse 200 ''success'' (Literal ''Data stored successfully'')
               \<and> (\<exists>row. db' = db @ [row] \<and> row_is_anomaly row = 0))
            \<or> ((\<exists>e. resp = JsonResponse 500 ''error'' (ExceptionText e)) \<and> db' = db))
       \<and> (\<forall>s f a payload'.
            required_fields lib reading (processed\<lparr>status := s, flagged := f, anomaly := a\<rparr>)
              = Inr payload' \<longrightarrow>
            store_data lib' execute db payload' = store_data lib' execute db payload)"
proof -
  from required_fields_shape [OF assms] obtain t h z pk pc es where
    shape: "\<And>r. required_fields lib reading r = Inr (JObj
             [(''city'', JStr (city r)),
              (''timestamp'', JStr (timestamp r)),
              (''voltage'', JFloat (voltage r)),
              (''current'', JFloat (current r)),
              (''power_consumption'', JFloat (power_consumption r)),
              (''status'', JStr (status r)),
              (''flagged'', JBool (flagged r)),
              (''anomaly'', JBool (anomaly r)),
              (''temperature'', JFloat t),
              (''humidity'', JFloat h),
              (''zone_distribution'', z),
              (''is_peak_hour'', JBool (py_bool pk)),
              (''per_capita_consumption'', JFloat pc),
              (''efficiency_score'', JFloat es)])"
    by blast
  from assms have payload: "payload = JObj
             [(''city'', JStr (city processed)),
              (''timestamp'', JStr (timestamp processed)),
              (''voltage'', JFloat (voltage processed)),
              (''current'', JFloat (current processed)),
              (''power_consumption'', JFloat (power_consumption processed)),
              (''status'', JStr (status processed)),
              (''flagged'', JBool (flagged processed)),
              (''anomaly'', JBool (anomaly processed)),
              (''temperature'', JFloat t),
              (''humidity'', JFloat h),
              (''zone_distribution'', z),
              (''is_peak_hour'', JBool (py_bool pk)),
              (''per_capita_consumption'', JFloat pc),
              (''efficiency_score'', JFloat es)]"
    by (simp add: shape)
  have 1: "subscript payload ''anomaly'' = Inr (JBool (anomaly processed))"
    by (simp add: payload)
  have 2: "dict_get payload ''is_anomaly'' (JBool False) = Inr (JBool False)"
    by (simp add: payload)
  have 3: "\<forall>resp db'. store_data lib' execute db payload = (resp, db') \<longrightarrow>
            (resp = JsonResponse 200 ''success'' (Literal ''Data stored successfully'')
               \<and> (\<exists>row. db' = db @ [row] \<and> row_is_anomaly row = 0))
            \<or> ((\<exists>e. resp = JsonResponse 500 ''error'' (ExceptionText e)) \<and> db' = db)"
    unfolding payload by (intro allI impI) (rule store_data_payload)
  have 4: "\<forall>s f a payload'.
            required_fields lib reading (processed\<lparr>status := s, flagged := f, anomaly := a\<rparr>)
              = Inr payload' \<longrightarrow>
            store_data lib' execute db payload' = store_data lib' execute db payload"
    by (simp add: shape payload store_data_def insert_parameters_payload)
  from 1 2 3 4 show ?thesis by blast
qed

theorem anomaly_never_persisted_witness:
  "required_fields example_lib (simulator_reading (JStr ''Mumbai'') 230 10 2300)
     ((cleaned ''Mumbai'' 230 10 2300 ''valid'' False)\<lparr>anomaly := True\<rparr>) = Inr anomalous_payload
   \<and> subscript anomalous_payload ''anomaly'' = Inr (JBool True)
   \<and> fst (store_data example_lib (\<lambda>row. None) [] anomalous_payload)
       = JsonResponse 200 ''success'' (Literal ''Data stored successfully'')
   \<and> map row_is_anomaly (snd (store_data example_lib (\<lambda>row. None) [] anomalous_payload)) = [0]"
proof -
  have h: "required_fields example_lib (simulator_reading (JStr ''Mumbai'') 230 10 2300)
     ((cleaned ''Mumbai'' 230 10 2300 ''valid'' False)\<lparr>anomaly := True\<rparr>) = Inr anomalous_payload"
    by (simp add: required_fields_def simulator_reading_def cleaned_def anomalous_payload_def)
  have ok: "fst (store_data example_lib (\<lambda>row. None) [] anomalous_payload)
       = JsonResponse 200 ''success'' (Literal ''Data stored successfully'')"
    by (simp add: store_data_def anomalous_payload_def insert_parameters_payload)
  obtain resp db' where run: "store_data example_lib (\<lambda>row. None) [] anomalous_payload = (resp, db')"
    by (cases "store_data example_lib (\<lambda>row. None) [] anomalous_payload")
  with ok have resp: "resp = JsonResponse 200 ''success'' (Literal ''Data stored successfully'')"
    by simp
  from anomaly_never_persisted [OF h, of example_lib "\<lambda>row. None" "[]"] run resp
  have "subscript anomalous_payload ''anomaly'' = Inr (JBool True)"
    and "\<exists>row. db' = [] @ [row] \<and> row_is_anomaly row = 0"
    by (simp_all add: cleaned_def)
  with h ok run show ?thesis by auto
qed

section \<open>Out-of-range readings\<close>

lemma forward_posts_nonempty:
  "posts (snd (forward post payload)) \<noteq> []"
  by (simp add: forward_unrolled split: attempt_result.splits)

text \<open>
  Out-of-range readings that carry the optional fields are not dropped. When \<open>clean_data\<close>
  accepts a reading whose voltage or current is outside the bounds, its source is hashable
  and the optional fields can be read, the detector scores it, the payload carries status
  \<open>invalid\<close> and flagged \<open>True\<close>, and that payload is posted to the store at least once.
\<close>

theorem invalid_reading_forwarded:
  assumes "clean_data lib reading = Inr c"
    and "\<not> (in_closed_interval 220 240 (voltage c) \<and> in_closed_interval 5 15 (current c))"
    and "subscript reading ''city'' = Inr city_raw"
    and "dict_key city_raw = Inr k"
    and "required_fields lib reading c = Inr p0"
  shows "\<exists>buf' r' payload.
           detect_anomalies num buf city_raw c = Inr (buf', r')
         \<and> required_fields lib reading r' = Inr payload
         \<and> subscript payload ''status'' = Inr (JStr ''invalid'')
         \<and> subscript payload ''flagged'' = Inr (JBool True)
         \<and> fst (snd (receive_data lib num post buf reading)) = buf'
         \<and> snd (snd (receive_data lib num post buf reading)) = snd (forward post payload)
         \<and> posts (snd (forward post payload)) \<noteq> []
         \<and> set (posts (snd (forward post payload))) = {payload}"
proof -
  from assms(1) obtain v i p city_raw' iso where
    "c = \<lparr>voltage = v, current = i, power_consumption = p,
          city = py_str lib city_raw', timestamp = iso,
          status = (if in_closed_interval 220 240 v \<and> in_closed_interval 5 15 i
                    then ''valid'' else ''invalid''),
          flagged = (\<not> (in_closed_interval 220 240 v \<and> in_closed_interval 5 15 i)),
          anomaly = False\<rparr>"
    by (rule clean_data_result)
  with assms(2) have st: "status c = ''invalid''" "flagged c"
    by auto
  from detect_anomalies_entries [OF assms(4), where buf = buf and r = c and num = num]
  obtain a buf' where
    det: "detect_anomalies num buf city_raw c = Inr (buf', c\<lparr>anomaly := a\<rparr>)"
    by blast
  from required_fields_shape [OF assms(5)] obtain payload where
    pay: "required_fields lib reading (c\<lparr>anomaly := a\<rparr>) = Inr payload"
      and fields: "subscript payload ''status'' = Inr (JStr (status (c\<lparr>anomaly := a\<rparr>)))"
                  "subscript payload ''flagged'' = Inr (JBool (flagged (c\<lparr>anomaly := a\<rparr>)))"
    by force
  have ne: "posts (snd (forward post payload)) \<noteq> []"
    by (rule forward_posts_nonempty)
  have rep: "posts (snd (forward post payload))
               = replicate (length (posts (snd (forward post payload)))) payload"
    using forward_effects [of post payload] by blast
  have set: "set (posts (snd (forward post payload))) = {payload}"
    using ne by (subst rep) simp
  have run: "fst (snd (receive_data lib num post buf reading)) = buf'
           \<and> snd (snd (receive_data lib num post buf reading)) = snd (forward post payload)"
    by (cases "fst (forward post payload)")
       (simp_all add: receive_data_def pipeline_def assms(1,3) det pay)
  show ?thesis
    using det pay fields st ne set run by auto
qed

theorem invalid_reading_forwarded_witness:
  "clean_data example_lib (simulator_reading (JStr ''Mumbai'') 250 10 2500)
     = Inr (cleaned ''Mumbai'' 250 10 2500 ''invalid'' True)
   \<and> \<not> in_closed_interval 220 240 (voltage (cleaned ''Mumbai'' 250 10 2500 ''invalid'' True))
   \<and> dict_key (JStr ''Mumbai'') = Inr (KeyString ''Mumbai'')
   \<and> (\<exists>payload. subscript payload ''status'' = Inr (JStr ''invalid'')
         \<and> subscript payload ''flagged'' = Inr (JBool True)
         \<and> snd (snd (receive_data example_lib sample_numerics store_ok init_buffer
                        (simulator_reading (JStr ''Mumbai'') 250 10 2500)))
             = \<lparr>posts = [payload], sleeps = []\<rparr>)"
proof -
  have c: "clean_data example_lib (simulator_reading (JStr ''Mumbai'') 250 10 2500)
     = Inr (cleaned ''Mumbai'' 250 10 2500 ''invalid'' True)"
    by (simp add: clean_data_def example_defs)
  have v: "\<not> (in_closed_interval 220 240 (voltage (cleaned ''Mumbai'' 250 10 2500 ''invalid'' True))
          \<and> in_closed_interval 5 15 (current (cleaned ''Mumbai'' 250 10 2500 ''invalid'' True)))"
    by (simp add: cleaned_def)
  have s: "subscript (simulator_reading (JStr ''Mumbai'') 250 10 2500) ''city'' = Inr (JStr ''Mumbai'')"
    by (simp add: city_of_reading)
  have k: "dict_key (JStr ''Mumbai'') = Inr (KeyString ''Mumbai'')" by simp
  have "\<exists>p0. required_fields example_lib (simulator_reading (JStr ''Mumbai'') 250 10 2500)
     (cleaned ''Mumbai'' 250 10 2500 ''invalid'' True) = Inr p0"
    by (simp add: required_fields_def simulator_reading_def example_lib_def)
  then obtain p0 where p: "required_fields example_lib (simulator_reading (JStr ''Mumbai'') 250 10 2500)
     (cleaned ''Mumbai'' 250 10 2500 ''invalid'' True) = Inr p0" ..
  from invalid_reading_forwarded
         [OF c v s k p, where post = store_ok and buf = init_buffer and num = sample_numerics]
  show ?thesis
    using c v k by (auto simp: forward_store_ok cleaned_def)
qed

section \<open>The detector in exact arithmetic\<close>

lemma sum_list_square_bound:
  fixes xs :: "real list"
  shows "(sum_list xs)\<^sup>2 \<le> real (length xs) * (\<Sum>x\<leftarrow>xs. x\<^sup>2)"
proof (induction xs)
  case Nil
  show ?case by simp
next
  case (Cons a xs)
  let ?s = "sum_list xs" and ?k = "real (length xs)" and ?Q = "(\<Sum>x\<leftarrow>xs. x\<^sup>2)"
  have Q: "0 \<le> ?Q" by (rule sum_list_nonneg) auto
  have "2 * a * ?s \<le> ?Q + ?k * a\<^sup>2"
  proof (cases "xs = []")
    case True
    then show ?thesis by simp
  next
    case False
    then have k: "0 < ?k" by simp
    have "0 \<le> (?k * a - ?s)\<^sup>2" by simp
    then have "2 * ?k * a * ?s \<le> ?k\<^sup>2 * a\<^sup>2 + ?s\<^sup>2"
      by (simp add: power2_diff power_mult_distrib algebra_simps)
    also have "\<dots> \<le> ?k\<^sup>2 * a\<^sup>2 + ?k * ?Q"
      using Cons.IH by simp
    finally have "?k * (2 * a * ?s) \<le> ?k * (?Q + ?k * a\<^sup>2)"
      by (simp add: algebra_simps power2_eq_square)
    with k show ?thesis
      by (simp only: mult_le_cancel_left_pos)
  qed
  then have "(a + ?s)\<^sup>2 \<le> (?k + 1) * (a\<^sup>2 + ?Q)"
    using Cons.IH by (simp add: power2_sum algebra_simps)
  then show ?case by (simp add: algebra_simps)
qed

lemma deviation_bound:
  fixes ds :: "real list"
  assumes "sum_list ds = 0" and "d \<in> set ds"
  shows "real (length ds) * d\<^sup>2 \<le> (real (length ds) - 1) * (\<Sum>x\<leftarrow>ds. x\<^sup>2)"
proof -
  from assms(2) obtain as bs where ds: "ds = as @ d # bs"
    by (auto simp: in_set_conv_decomp)
  let ?rest = "as @ bs"
  have s: "sum_list ?rest = - d"
    using assms(1) by (simp add: ds)
  have "d\<^sup>2 = (sum_list ?rest)\<^sup>2"
    by (simp only: s power2_minus)
  also have "\<dots> \<le> real (length ?rest) * (\<Sum>x\<leftarrow>?rest. x\<^sup>2)"
    by (rule sum_list_square_bound)
  finally have "d\<^sup>2 \<le> real (length ?rest) * (\<Sum>x\<leftarrow>?rest. x\<^sup>2)" .
  then show ?thesis
    by (simp add: ds algebra_simps)
qed

lemma foldl_fadd_Finite:
  "foldl fadd (Finite a) (map Finite ys) = Finite (a + sum_list ys)"
  by (induction ys arbitrary: a) (simp_all add: add.assoc)

lemma exact_sum_Finite: "exact_sum (map Finite ys) = Finite (sum_list ys)"
  by (simp add: exact_sum_def foldl_fadd_Finite)

lemma fadd_not_finite: "\<not> is_finite a \<or> \<not> is_finite b \<Longrightarrow> \<not> is_finite (fadd a b)"
  by (cases a; cases b) auto

lemma foldl_fadd_absorbs: "\<not> is_finite a \<Longrightarrow> \<not> is_finite (foldl fadd a xs)"
  by (induction xs arbitrary: a) (simp_all add: fadd_not_finite)

lemma foldl_fadd_not_finite:
  "\<exists>x\<in>set xs. \<not> is_finite x \<Longrightarrow> \<not> is_finite (foldl fadd a xs)"
proof (induction xs arbitrary: a)
  case Nil
  then show ?case by simp
next
  case (Cons x xs)
  show ?case
  proof (cases "is_finite x")
    case True
    with Cons.prems have "\<exists>x\<in>set xs. \<not> is_finite x" by simp
    then show ?thesis by (simp add: Cons.IH)
  next
    case False
    then show ?thesis by (simp add: foldl_fadd_absorbs fadd_not_finite)
  qed
qed

lemma exact_mean_not_finite:
  assumes "\<exists>x\<in>set xs. \<not> is_finite x"
  shows "\<not> is_finite (exact_mean xs)"
proof -
  from assms have "\<not> is_finite (exact_sum xs)"
    by (simp add: exact_sum_def foldl_fadd_not_finite)
  moreover from assms have "0 < real (length xs)"
    by (cases xs) auto
  ultimately show ?thesis
    by (cases "exact_sum xs") (auto simp: exact_mean_def)
qed

lemma fsub_not_finite: "\<not> is_finite m \<Longrightarrow> \<not> is_finite (fsub x m)"
  by (cases x; cases m) (auto simp: fsub_def)

lemma fmul_not_finite: "\<not> is_finite d \<Longrightarrow> \<not> is_finite (fmul d d)"
  by (cases d) auto

lemma fsqrt_not_negative: "\<not> flt (fsqrt t) (Finite 0)"
  by (cases t) auto

lemma ieee_exact_numerics: "ieee_numerics exact_numerics"
  by (simp add: ieee_numerics_def exact_numerics_def exact_std_def Let_def
      fsqrt_not_negative fdiv_by_positive fdiv_by_NaN)

lemma no_anomaly_not_finite:
  assumes "\<exists>x\<in>set w. \<not> is_finite x"
  shows "\<not> reference_anomaly exact_numerics w x"
proof -
  let ?m = "exact_mean w"
  let ?sq = "map (\<lambda>x. let d = fsub x ?m in fmul d d) w"
  have m: "\<not> is_finite ?m"
    using assms by (rule exact_mean_not_finite)
  from assms obtain y where "y \<in> set w" by blast
  then have "\<exists>q\<in>set ?sq. \<not> is_finite q"
    using m by (auto simp: Let_def fsub_not_finite fmul_not_finite)
  then have "\<not> is_finite (exact_mean ?sq)"
    by (rule exact_mean_not_finite)
  then have s: "exact_std w = PosInf \<or> exact_std w = NaN"
    by (cases "exact_mean ?sq") (auto simp: exact_std_def Let_def)
  have d: "\<not> is_finite (fsub x ?m)"
    using m by (rule fsub_not_finite)
  have "\<not> flt (Finite 3) (fdiv (fabs (fsub x ?m)) (exact_std w))"
    using s d by (cases "fsub x ?m") auto
  then show ?thesis
    by (simp add: reference_anomaly_def Let_def exact_numerics_def)
qed

lemma no_anomaly_finite:
  assumes "length ys = WINDOW_SIZE" and "y \<in> set ys"
  shows "\<not> reference_anomaly exact_numerics (map Finite ys) (Finite y)"
proof -
  define m where "m = sum_list ys / 10"
  define V where "V = (\<Sum>x\<leftarrow>ys. (x - m) * (x - m)) / 10"
  have len: "real (length ys) = 10"
    using assms(1) by (simp add: WINDOW_SIZE_def)
  have mean: "exact_mean (map Finite ys) = Finite m"
    by (simp add: exact_mean_def exact_sum_Finite len m_def)
  have sq: "map (\<lambda>x. fmul (fsub x (Finite m)) (fsub x (Finite m))) (map Finite ys)
          = map Finite (map (\<lambda>x. (x - m) * (x - m)) ys)"
    by (simp add: fsub_def)
  have V0: "0 \<le> V"
    unfolding V_def by (intro divide_nonneg_pos sum_list_nonneg) auto
  have msq: "exact_mean (map (\<lambda>x. fmul (fsub x (Finite m)) (fsub x (Finite m))) (map Finite ys))
           = Finite V"
    unfolding sq exact_mean_def exact_sum_Finite by (simp add: len V_def)
  have std: "exact_std (map Finite ys) = Finite (sqrt V)"
    unfolding exact_std_def Let_def mean msq using V0 by simp
  have "sum_list (map (\<lambda>x. x - m) ys) = sum_list ys - real (length ys) * m"
    by (induction ys) (simp_all add: algebra_simps)
  then have zero: "sum_list (map (\<lambda>x. x - m) ys) = 0"
    by (simp add: len m_def)
  have "y - m \<in> set (map (\<lambda>x. x - m) ys)"
    using assms(2) by simp
  from deviation_bound [OF zero this]
  have "10 * (y - m)\<^sup>2 \<le> 9 * (\<Sum>x\<leftarrow>ys. (x - m)\<^sup>2)"
    by (simp add: len comp_def)
  then have "(y - m)\<^sup>2 \<le> 9 * V"
    by (simp add: V_def power2_eq_square)
  then have "sqrt ((y - m)\<^sup>2) \<le> sqrt (9 * V)"
    by (rule real_sqrt_le_mono)
  then have bound: "\<bar>y - m\<bar> \<le> 3 * sqrt V"
    by (simp add: real_sqrt_mult)
  have "\<not> 3 < \<bar>y - m\<bar> / sqrt V" if "sqrt V \<noteq> 0"
  proof -
    from that V0 have "0 < sqrt V" by simp
    with bound have "\<bar>y - m\<bar> / sqrt V \<le> 3"
      by (simp add: pos_divide_le_eq)
    then show ?thesis by simp
  qed
  then show ?thesis
    by (simp add: reference_anomaly_def Let_def exact_numerics_def mean std fsub_def)
qed

lemma all_finite_map: "\<forall>x\<in>set w. is_finite x \<Longrightarrow> \<exists>ys. w = map Finite ys"
proof (induction w)
  case Nil
  show ?case by simp
next
  case (Cons x w)
  then obtain ys where "w = map Finite ys" by auto
  moreover from Cons.prems obtain a where "x = Finite a" by (cases x) auto
  ultimately have "x # w = map Finite (a # ys)" by simp
  then show ?case by (rule exI)
qed

lemma no_anomaly_in_window:
  assumes "length w \<le> WINDOW_SIZE" and "x \<in> set w"
  shows "\<not> reference_anomaly exact_numerics w x"
proof (cases "\<forall>x\<in>set w. is_finite x")
  case True
  then obtain ys where w: "w = map Finite ys"
    using all_finite_map by blast
  with assms(2) obtain y where y: "x = Finite y" "y \<in> set ys" by auto
  show ?thesis
  proof (cases "length w < WINDOW_SIZE")
    case True
    then show ?thesis by (simp add: reference_anomaly_def)
  next
    case False
    with assms(1) w have "length ys = WINDOW_SIZE" by simp
    then show ?thesis
      unfolding w y(1) using y(2) by (rule no_anomaly_finite)
  qed
next
  case False
  then show ?thesis by (simp add: no_anomaly_not_finite)
qed

lemma reference_window_bounded:
  "length w \<le> WINDOW_SIZE \<Longrightarrow>
     length (reference_window w x) \<le> WINDOW_SIZE \<and> x \<in> set (reference_window w x)"
  by (cases w) (auto simp: reference_window_def Let_def WINDOW_SIZE_def)

lemma detect_anomalies_no_flag:
  assumes "detect_anomalies exact_numerics buf c r = Inr (buf', r')"
    and "\<forall>k. length (entries buf k) \<le> WINDOW_SIZE"
  shows "\<not> anomaly r' \<and> (\<forall>k. length (entries buf' k) \<le> WINDOW_SIZE)"
proof -
  from assms(1) obtain k where k: "dict_key c = Inr k"
    by (cases "dict_key c") (simp_all add: detect_anomalies_def)
  from detect_anomalies_reference [OF ieee_exact_numerics k, where buf = buf and r = r] assms(1)
  have r': "anomaly r' = reference_anomaly exact_numerics
              (reference_window (window buf k) (power_consumption r)) (power_consumption r)"
    by auto
  have "length (window buf k) \<le> WINDOW_SIZE"
    using assms(2) by (simp add: entries_window)
  from reference_window_bounded [OF this] no_anomaly_in_window
  have 1: "\<not> anomaly r'"
    unfolding r' by blast
  have "detect_state exact_numerics buf [(c, r)] = buf'"
    by (simp add: assms(1))
  with detect_anomalies_bounded [OF assms(2), where calls = "[(c, r)]" and num = exact_numerics]
  have 2: "\<forall>k. length (entries buf' k) \<le> WINDOW_SIZE"
    by simp
  from 1 2 show ?thesis ..
qed

lemma detect_all_no_flag:
  assumes "\<forall>k. length (entries buf k) \<le> WINDOW_SIZE"
  shows "Inr True \<notin> set (detect_all exact_numerics buf calls)"
  using assms
proof (induction calls arbitrary: buf)
  case Nil
  show ?case by simp
next
  case (Cons cr calls)
  obtain c r where cr: "cr = (c, r)" by (cases cr)
  show ?case
  proof (cases "detect_anomalies exact_numerics buf c r")
    case (Inl e)
    then show ?thesis
      using Cons.IH [OF Cons.prems] by (simp add: cr)
  next
    case (Inr res)
    obtain buf' r' where res: "res = (buf', r')" by (cases res)
    from detect_anomalies_no_flag [OF Inr [unfolded res] Cons.prems]
    have "\<not> anomaly r'" and inv: "\<forall>k. length (entries buf' k) \<le> WINDOW_SIZE"
      by simp_all
    then show ?thesis
      using Cons.IH [OF inv] by (simp add: cr Inr res)
  qed
qed

text \<open>
  With the exact operations in place of the rounding ones the detector never flags a
  reading. The value scored belongs to the window it is scored against, and a member of a
  window of at most ten values lies within \<open>sqrt (10 - 1) = 3\<close> population standard
  deviations of the mean, so \<open>z > 3\<close> does not hold; a window that holds an infinity or NaN
  gives a score that is NaN. A flag of the code, as on the sample window above, is an effect
  of rounding.
\<close>

theorem detector_never_flags:
  "Inr True \<notin> set (detect_all exact_numerics init_buffer calls)"
  by (rule detect_all_no_flag) (simp add: entries_def init_buffer_def)

end
